theory Spec2Isabelle
  imports Complex_Main "HOL-Library.AList"
begin

section \<open>Values, dictionaries and the environment\<close>

text \<open>
  The two stores of the repository (\<^verbatim>\<open>AnubisV2/service_manager.py\<close> and
  \<^verbatim>\<open>Anubis/soul/session_manager.py\<close>) keep Python objects whose fields are filled
  from JSON without any validation, so a field holds an arbitrary JSON value.
  A Python \<^verbatim>\<open>dict\<close> is an association list in insertion order whose keys are
  pairwise distinct; \<^verbatim>\<open>d[k] = v\<close> is \<open>AList.update\<close> (replace in place, or append),
  \<^verbatim>\<open>del d[k]\<close> is \<open>AList.delete\<close> and \<^verbatim>\<open>k in d\<close> is \<open>map_of d k \<noteq> None\<close>.
\<close>

datatype pyval =
    PNone
  | PBool bool
  | PInt int
  | PFloat real
  | PStr string
  | PList "pyval list"
  | PDict "(string \<times> pyval) list"

text \<open>\<^verbatim>\<open>d.get(k, default)\<close> on a dictionary.\<close>

definition py_get :: "(string \<times> pyval) list \<Rightarrow> string \<Rightarrow> pyval \<Rightarrow> pyval" where
  "py_get d k dflt = (case map_of d k of None \<Rightarrow> dflt | Some v \<Rightarrow> v)"

text \<open>Python truthiness, as used by \<^verbatim>\<open>x or y\<close> and \<^verbatim>\<open>if x:\<close>.\<close>

fun truthy :: "pyval \<Rightarrow> bool" where
  "truthy PNone = False"
| "truthy (PBool b) = b"
| "truthy (PInt i) = (i \<noteq> 0)"
| "truthy (PFloat r) = (r \<noteq> 0)"
| "truthy (PStr s) = (s \<noteq> [])"
| "truthy (PList xs) = (xs \<noteq> [])"
| "truthy (PDict d) = (d \<noteq> [])"

text \<open>\<^verbatim>\<open>type(v).__name__\<close>, for the text of an \<^verbatim>\<open>AttributeError\<close>.\<close>

fun py_type_name :: "pyval \<Rightarrow> string" where
  "py_type_name PNone = ''NoneType''"
| "py_type_name (PBool b) = ''bool''"
| "py_type_name (PInt i) = ''int''"
| "py_type_name (PFloat r) = ''float''"
| "py_type_name (PStr s) = ''str''"
| "py_type_name (PList xs) = ''list''"
| "py_type_name (PDict d) = ''dict''"

text \<open>\<^verbatim>\<open>str(n)\<close> for an integer, used by the f-strings.\<close>

fun str_nat :: "nat \<Rightarrow> string" where
  "str_nat n = (if n < 10 then [char_of (48 + n)]
                else str_nat (n div 10) @ [char_of (48 + n mod 10)])"

declare str_nat.simps [simp del]

definition str_int :: "int \<Rightarrow> string" where
  "str_int i = (if i < 0 then CHR ''-'' # str_nat (nat (- i)) else str_nat (nat i))"

text \<open>\<^verbatim>\<open>os.path.join(a, b)\<close> of \<^verbatim>\<open>posixpath\<close>, for two components.\<close>

definition os_path_join :: "string \<Rightarrow> string \<Rightarrow> string" where
  "os_path_join a b =
     (if b \<noteq> [] \<and> hd b = CHR ''/'' then b
      else if a = [] \<or> last a = CHR ''/'' then a @ b
      else a @ ''/'' @ b)"

text \<open>
  What a backing file holds: nothing (\<^verbatim>\<open>os.path.exists\<close> is false), something that
  \<^verbatim>\<open>open\<close> or \<^verbatim>\<open>json.load\<close> raises on (with the text of the exception), or a JSON
  document.
\<close>

datatype file_state = Missing | Unparsable string | Content pyval

text \<open>
  The outcome of \<^verbatim>\<open>open(path, 'w')\<close> followed by \<^verbatim>\<open>json.dump\<close>: the document is
  written, or an exception with the given text is raised and the file is left in the
  given state.
\<close>

datatype write_outcome = WriteOk | WriteFails string file_state

text \<open>
  The outcome of the body of the \<^verbatim>\<open>try\<close> in \<^verbatim>\<open>start_service\<close> up to and including
  \<^verbatim>\<open>subprocess.Popen\<close>: a child with the given pid, or an exception (from opening the
  log file or from the spawn) with the given text.
\<close>

datatype launch = Launched int | LaunchRaises string

text \<open>\<^verbatim>\<open>process.wait(timeout=5)\<close>: returns, raises \<^verbatim>\<open>TimeoutExpired\<close>, or raises
  something else.\<close>

datatype wait = WaitExited | WaitTimeout | WaitRaises string

text \<open>
  The operating system and the clock are not part of the program. Their answers are
  read from an environment; each answer is indexed by the name of the service (or
  platform, or provider) the call is about, so that a batch operation meets an
  independent answer for every name it visits. \<open>None\<close> from a signal means that
  \<^verbatim>\<open>os.killpg(os.getpgid(pid), sig)\<close> returned, \<open>Some e\<close> that it raised with text \<open>e\<close>.
\<close>

record env =
  poll_running :: "string \<Rightarrow> bool"
  popen :: "string \<Rightarrow> pyval \<Rightarrow> pyval \<Rightarrow> launch"
  now :: "string \<Rightarrow> string"
  killpg_term :: "string \<Rightarrow> int \<Rightarrow> string option"
  wait_grace :: "string \<Rightarrow> wait"
  killpg_kill :: "string \<Rightarrow> int \<Rightarrow> string option"
  write_file :: "string \<Rightarrow> write_outcome"
  saved_at :: "string \<Rightarrow> string"

text \<open>A call returns a value or lets an exception escape (with its text).\<close>

datatype 'a outcome = Returns 'a | Raises string

section \<open>The service manager\<close>

text \<open>The dataclass \<^verbatim>\<open>Service\<close>; the fields carry the prefix \<open>svc_\<close>.\<close>

record service =
  svc_name :: pyval
  svc_platform :: pyval
  svc_command :: pyval
  svc_pid :: pyval
  svc_status :: string
  svc_started_at :: pyval
  svc_log_file :: pyval
  svc_auto_restart :: pyval
  svc_restart_count :: int
  svc_max_restarts :: int

text \<open>A \<^verbatim>\<open>subprocess.Popen\<close> handle; what the program reads from it is its pid.\<close>

datatype popen_handle = Popen (handle_pid: int)

text \<open>
  The state of a \<^verbatim>\<open>ServiceManager\<close>: its two dictionaries, the logs directory, and
  what the file at \<^verbatim>\<open>self.services_file\<close> holds.
\<close>

record service_manager =
  logs_dir :: string
  services :: "(string \<times> service) list"
  processes :: "(string \<times> popen_handle) list"
  services_file :: file_state

text \<open>The dictionaries returned by \<^verbatim>\<open>start_service\<close> and \<^verbatim>\<open>stop_service\<close>:
  \<^verbatim>\<open>{"success": True, ["pid": p,] "message": m}\<close> or \<^verbatim>\<open>{"success": False, "error": e}\<close>.\<close>

datatype result = Success "int option" string | Failure string

fun success :: "result \<Rightarrow> bool" where
  "success (Success p m) = True"
| "success (Failure e) = False"

definition service_to_json :: "service \<Rightarrow> pyval" where
  "service_to_json svc = PDict
     [(''name'', svc_name svc), (''platform'', svc_platform svc),
      (''command'', svc_command svc), (''pid'', svc_pid svc),
      (''started_at'', svc_started_at svc), (''log_file'', svc_log_file svc),
      (''auto_restart'', svc_auto_restart svc)]"

definition services_json :: "string \<Rightarrow> (string \<times> service) list \<Rightarrow> pyval" where
  "services_json t svcs = PDict
     [(''services'', PDict (map (\<lambda>(n, svc). (n, service_to_json svc)) svcs)),
      (''last_saved'', PStr t)]"

text \<open>\<^verbatim>\<open>_save_services\<close>, called while handling name \<open>k\<close>: \<open>Some e\<close> when the write raises.\<close>

definition save_services :: "env \<Rightarrow> string \<Rightarrow> service_manager \<Rightarrow> string option \<times> service_manager" where
  "save_services e k st =
     (case write_file e k of
        WriteOk \<Rightarrow>
          (None, st\<lparr>services_file := Content (services_json (saved_at e k) (services st))\<rparr>)
      | WriteFails msg f \<Rightarrow> (Some msg, st\<lparr>services_file := f\<rparr>))"

text \<open>The \<^verbatim>\<open>Service(...)\<close> built by \<^verbatim>\<open>_load_services\<close> from one entry.\<close>

definition loaded_service :: "string \<Rightarrow> (string \<times> pyval) list \<Rightarrow> service" where
  "loaded_service n d =
     \<lparr>svc_name = py_get d ''name'' (PStr n),
      svc_platform = py_get d ''platform'' (PStr ''unknown''),
      svc_command = py_get d ''command'' (PStr []),
      svc_pid = py_get d ''pid'' PNone,
      svc_status = ''stopped'',
      svc_started_at = py_get d ''started_at'' PNone,
      svc_log_file = py_get d ''log_file'' (PStr []),
      svc_auto_restart = py_get d ''auto_restart'' (PBool True),
      svc_restart_count = 0,
      svc_max_restarts = 5\<rparr>"

text \<open>
  The loop of \<^verbatim>\<open>_load_services\<close>. An entry that is not a dictionary makes
  \<^verbatim>\<open>svc_data.get\<close> raise; the \<^verbatim>\<open>except\<close> around the loop ends the load there and the
  entries stored so far stay.
\<close>

fun load_entries :: "(string \<times> pyval) list \<Rightarrow> (string \<times> service) list \<Rightarrow> (string \<times> service) list" where
  "load_entries [] svcs = svcs"
| "load_entries ((n, PDict d) # rest) svcs =
     load_entries rest (AList.update n (loaded_service n d) svcs)"
| "load_entries ((n, v) # rest) svcs = svcs"

text \<open>\<^verbatim>\<open>_load_services\<close>: every exception of the body is caught and printed.\<close>

definition load_services :: "service_manager \<Rightarrow> service_manager" where
  "load_services st =
     (case services_file st of
        Missing \<Rightarrow> st
      | Unparsable msg \<Rightarrow> st
      | Content (PDict data) \<Rightarrow>
          (case py_get data ''services'' (PDict []) of
             PDict entries \<Rightarrow> st\<lparr>services := load_entries entries (services st)\<rparr>
           | _ \<Rightarrow> st)
      | Content _ \<Rightarrow> st)"

text \<open>
  \<^verbatim>\<open>ServiceManager.__init__\<close> from the point where both \<^verbatim>\<open>os.makedirs\<close> calls have
  returned, for the directory \<open>services_dir\<close> in use and the contents \<open>f\<close> of its
  \<^verbatim>\<open>services.json\<close>: empty dictionaries, then the load.
\<close>

definition ServiceManager :: "string \<Rightarrow> file_state \<Rightarrow> service_manager" where
  "ServiceManager services_dir f =
     load_services \<lparr>logs_dir = os_path_join services_dir ''logs'', services = [],
                    processes = [], services_file = f\<rparr>"

text \<open>
  The whole of \<^verbatim>\<open>ServiceManager.__init__\<close>. The directory is the argument, or for
  \<^verbatim>\<open>None\<close> and the empty string the default \<open>default_dir\<close> (the directory
  \<^verbatim>\<open>services\<close> next to the package of the module). \<open>mk\<close> is the exception of the first
  of the two \<^verbatim>\<open>os.makedirs\<close> calls that raises, if one does; they are outside any
  \<^verbatim>\<open>try\<close>, so it escapes before anything is loaded.
\<close>

definition ServiceManager_init :: "string \<Rightarrow> string option \<Rightarrow> string option \<Rightarrow> file_state
    \<Rightarrow> service_manager outcome" where
  "ServiceManager_init default_dir services_dir mk f =
     (case mk of
        Some msg \<Rightarrow> Raises msg
      | None \<Rightarrow>
          Returns (ServiceManager
            (case services_dir of
               None \<Rightarrow> default_dir
             | Some d \<Rightarrow> if d = [] then default_dir else d) f))"

text \<open>\<^verbatim>\<open>service.log_file or os.path.join(self.logs_dir, f"{name}.log")\<close>.\<close>

definition log_path :: "service_manager \<Rightarrow> string \<Rightarrow> service \<Rightarrow> pyval" where
  "log_path st n svc =
     (if truthy (svc_log_file svc) then svc_log_file svc
      else PStr (os_path_join (logs_dir st) (n @ ''.log'')))"

text \<open>
  \<^verbatim>\<open>start_service\<close>. The two early returns come first. Everything after them is inside
  \<^verbatim>\<open>try\<close>/\<^verbatim>\<open>except Exception\<close>: an exception of the launch leaves the handle and
  the pid alone, an exception of \<^verbatim>\<open>_save_services\<close> comes after the handle, pid,
  status and start time have been set; both end in the handler, which sets
  \<^verbatim>\<open>status = "crashed"\<close> and returns \<^verbatim>\<open>str(e)\<close>.
\<close>

definition start_service :: "env \<Rightarrow> string \<Rightarrow> service_manager \<Rightarrow> result outcome \<times> service_manager" where
  "start_service e n st =
     (case map_of (services st) n of
        None \<Rightarrow> (Returns (Failure (''Service '' @ [CHR 0x27] @ n @ [CHR 0x27] @ '' not found'')), st)
      | Some svc \<Rightarrow>
          if map_of (processes st) n \<noteq> None \<and> poll_running e n
          then (Returns (Failure (''Service '' @ [CHR 0x27] @ n @ [CHR 0x27] @ '' is already running'')), st)
          else
            (case popen e n (svc_command svc) (log_path st n svc) of
                  LaunchRaises msg \<Rightarrow>
                    (Returns (Failure msg),
                     st\<lparr>services := AList.update n (svc\<lparr>svc_status := ''crashed''\<rparr>) (services st)\<rparr>)
                | Launched p \<Rightarrow>
                    (let svc1 = svc\<lparr>svc_pid := PInt p, svc_status := ''running'',
                                     svc_started_at := PStr (now e n)\<rparr>;
                         st1 = st\<lparr>processes := AList.update n (Popen p) (processes st),
                                   services := AList.update n svc1 (services st)\<rparr>
                     in case save_services e n st1 of
                          (None, st2) \<Rightarrow>
                            (Returns (Success (Some p)
                               (''Service '' @ [CHR 0x27] @ n @ [CHR 0x27] @ '' started with PID '' @ str_int p)),
                             st2)
                        | (Some msg, st2) \<Rightarrow>
                            (Returns (Failure msg),
                             st2\<lparr>services :=
                                   AList.update n (svc1\<lparr>svc_status := ''crashed''\<rparr>) (services st2)\<rparr>))))"

text \<open>
  The \<^verbatim>\<open>try\<close> of \<^verbatim>\<open>stop_service\<close> up to the second \<^verbatim>\<open>wait\<close>: the graceful signal, the
  wait of five seconds, and after a timeout the kill signal and the wait for the exit.
  \<open>Some msg\<close> is an exception on the way to the outer handler.
\<close>

definition terminate :: "env \<Rightarrow> string \<Rightarrow> popen_handle \<Rightarrow> string option" where
  "terminate e n process =
     (case killpg_term e n (handle_pid process) of
        Some msg \<Rightarrow> Some msg
      | None \<Rightarrow>
          (case wait_grace e n of
             WaitExited \<Rightarrow> None
           | WaitTimeout \<Rightarrow> killpg_kill e n (handle_pid process)
           | WaitRaises msg \<Rightarrow> Some msg))"

text \<open>
  \<^verbatim>\<open>stop_service\<close>. Without a handle the save is outside any \<^verbatim>\<open>try\<close>, so its
  exception escapes; with a handle, signalling and the save are inside the
  \<^verbatim>\<open>try\<close>, whose handler returns \<^verbatim>\<open>str(e)\<close> and changes nothing more.
\<close>

definition stop_service :: "env \<Rightarrow> string \<Rightarrow> service_manager \<Rightarrow> result outcome \<times> service_manager" where
  "stop_service e n st =
     (case map_of (services st) n of
        None \<Rightarrow> (Returns (Failure (''Service '' @ [CHR 0x27] @ n @ [CHR 0x27] @ '' not found'')), st)
      | Some svc \<Rightarrow>
          (case map_of (processes st) n of
             None \<Rightarrow>
               (case save_services e n
                       (st\<lparr>services := AList.update n (svc\<lparr>svc_status := ''stopped''\<rparr>) (services st)\<rparr>) of
                  (None, st2) \<Rightarrow>
                    (Returns (Success None (''Service '' @ [CHR 0x27] @ n @ [CHR 0x27] @ '' was not running'')), st2)
                | (Some msg, st2) \<Rightarrow> (Raises msg, st2))
           | Some process \<Rightarrow>
               (case terminate e n process of
                  Some msg \<Rightarrow> (Returns (Failure msg), st)
                | None \<Rightarrow>
                    (case save_services e n
                            (st\<lparr>services := AList.update n
                                   (svc\<lparr>svc_status := ''stopped'', svc_pid := PNone\<rparr>) (services st),
                                processes := AList.delete n (processes st)\<rparr>) of
                       (None, st2) \<Rightarrow>
                         (Returns (Success None (''Service '' @ [CHR 0x27] @ n @ [CHR 0x27] @ '' stopped'')), st2)
                     | (Some msg, st2) \<Rightarrow> (Returns (Failure msg), st2)))))"

text \<open>The dictionary returned by \<^verbatim>\<open>get_service_status\<close> for a registered service;
  \<open>None\<close> stands for \<^verbatim>\<open>{"exists": False}\<close>.\<close>

record status_report =
  rep_name :: pyval
  rep_platform :: pyval
  rep_status :: string
  rep_pid :: pyval
  rep_started_at :: pyval
  rep_restart_count :: int
  rep_log_file :: pyval

definition get_service_status :: "env \<Rightarrow> string \<Rightarrow> service_manager \<Rightarrow> status_report option \<times> service_manager" where
  "get_service_status e n st =
     (case map_of (services st) n of
        None \<Rightarrow> (None, st)
      | Some svc \<Rightarrow>
          (let svc1 = svc\<lparr>svc_status :=
                         (case map_of (processes st) n of
                            Some process \<Rightarrow> if poll_running e n then ''running'' else ''crashed''
                          | None \<Rightarrow> ''stopped'')\<rparr>
           in (Some \<lparr>rep_name = svc_name svc1, rep_platform = svc_platform svc1,
                      rep_status = svc_status svc1, rep_pid = svc_pid svc1,
                      rep_started_at = svc_started_at svc1,
                      rep_restart_count = svc_restart_count svc1,
                      rep_log_file = svc_log_file svc1\<rparr>,
               st\<lparr>services := AList.update n svc1 (services st)\<rparr>)))"

text \<open>
  The loops of \<^verbatim>\<open>start_all\<close> and \<^verbatim>\<open>stop_all\<close> over the names still to visit, with the
  result dictionary built so far. An exception escaping one call would end the loop.
\<close>

fun start_each :: "env \<Rightarrow> string list \<Rightarrow> (string \<times> result) list \<Rightarrow> service_manager
    \<Rightarrow> (string \<times> result) list outcome \<times> service_manager" where
  "start_each e [] results st = (Returns results, st)"
| "start_each e (n # ns) results st =
     (case start_service e n st of
        (Returns r, st1) \<Rightarrow> start_each e ns (AList.update n r results) st1
      | (Raises msg, st1) \<Rightarrow> (Raises msg, st1))"

fun stop_each :: "env \<Rightarrow> string list \<Rightarrow> (string \<times> result) list \<Rightarrow> service_manager
    \<Rightarrow> (string \<times> result) list outcome \<times> service_manager" where
  "stop_each e [] results st = (Returns results, st)"
| "stop_each e (n # ns) results st =
     (case stop_service e n st of
        (Returns r, st1) \<Rightarrow> stop_each e ns (AList.update n r results) st1
      | (Raises msg, st1) \<Rightarrow> (Raises msg, st1))"

text \<open>\<^verbatim>\<open>start_all\<close> visits the keys of \<^verbatim>\<open>self.services\<close>; \<^verbatim>\<open>stop_all\<close> visits
  \<^verbatim>\<open>list(self.processes.keys())\<close>, a copy taken before the loop.\<close>

definition start_all :: "env \<Rightarrow> service_manager \<Rightarrow> (string \<times> result) list outcome \<times> service_manager" where
  "start_all e st = start_each e (map fst (services st)) [] st"

definition stop_all :: "env \<Rightarrow> service_manager \<Rightarrow> (string \<times> result) list outcome \<times> service_manager" where
  "stop_all e st = stop_each e (map fst (processes st)) [] st"

section \<open>The session manager\<close>

text \<open>
  \<^verbatim>\<open>save_platform\<close> keeps the dictionary objects it is given and updates the stored ones
  in place, so two fields that hold the same object change together. Dictionary objects
  therefore live in a store, addressed by numbers; \<open>next_addr\<close> is the first address
  not in use. The fields of a \<^verbatim>\<open>PlatformSession\<close> that can hold a dictionary hold
  either a reference to an object of the store or a value by itself (\<open>Val (PDict d)\<close>
  is a dictionary that nothing else refers to). The values inside a dictionary are
  plain data.
\<close>

type_synonym addr = nat

datatype slot = Ref addr | Val pyval

text \<open>The dataclasses \<^verbatim>\<open>PlatformSession\<close> (fields with the prefix \<open>ps_\<close>) and
  \<^verbatim>\<open>APIKey\<close> (prefix \<open>ak_\<close>).\<close>

record platform_session =
  ps_platform :: pyval
  ps_credentials :: slot
  ps_created_at :: pyval
  ps_last_used :: pyval
  ps_is_active :: pyval
  ps_settings :: slot
  ps_metadata :: slot

record api_key =
  ak_provider :: pyval
  ak_key :: pyval
  ak_added_at :: pyval
  ak_tokens_used :: pyval
  ak_tokens_remaining :: pyval
  ak_is_active :: pyval
  ak_last_used :: pyval

text \<open>The state of a \<^verbatim>\<open>SessionManager\<close>: three dictionaries, what the three files
  hold, and the store of dictionary objects it shares with its callers.\<close>

record session_manager =
  platforms :: "(string \<times> platform_session) list"
  api_keys :: "(string \<times> api_key) list"
  settings :: pyval
  sessions_file :: file_state
  api_keys_file :: file_state
  settings_file :: file_state
  heap :: "addr \<Rightarrow> (string \<times> pyval) list"
  next_addr :: addr

text \<open>What a field holds, as a value: the dictionary behind a reference.\<close>

fun slot_value :: "(addr \<Rightarrow> (string \<times> pyval) list) \<Rightarrow> slot \<Rightarrow> pyval" where
  "slot_value h (Ref a) = PDict (h a)"
| "slot_value h (Val v) = v"

text \<open>A new dictionary object with the given content.\<close>

definition alloc :: "(string \<times> pyval) list \<Rightarrow> session_manager \<Rightarrow> addr \<times> session_manager" where
  "alloc d st =
     (next_addr st, st\<lparr>heap := (heap st)(next_addr st := d), next_addr := Suc (next_addr st)\<rparr>)"

text \<open>A value that \<^verbatim>\<open>json.load\<close> or a \<^verbatim>\<open>{}\<close> default has just built, put into a field: a
  dictionary is a new object of the store.\<close>

fun as_slot :: "pyval \<Rightarrow> session_manager \<Rightarrow> slot \<times> session_manager" where
  "as_slot (PDict d) st = (case alloc d st of (a, st1) \<Rightarrow> (Ref a, st1))"
| "as_slot v st = (Val v, st)"

definition PlatformSession_to_dict :: "(addr \<Rightarrow> (string \<times> pyval) list) \<Rightarrow> platform_session \<Rightarrow> pyval" where
  "PlatformSession_to_dict h s = PDict
     [(''platform'', ps_platform s), (''credentials'', slot_value h (ps_credentials s)),
      (''created_at'', ps_created_at s), (''last_used'', ps_last_used s),
      (''is_active'', ps_is_active s), (''settings'', slot_value h (ps_settings s)),
      (''metadata'', slot_value h (ps_metadata s))]"

text \<open>\<^verbatim>\<open>PlatformSession.from_dict\<close>; \<open>None\<close> when \<^verbatim>\<open>data.get\<close> raises because the data
  is no dictionary.\<close>

fun PlatformSession_from_dict :: "pyval \<Rightarrow> session_manager \<Rightarrow> (platform_session \<times> session_manager) option" where
  "PlatformSession_from_dict (PDict d) st =
     (case as_slot (py_get d ''credentials'' (PDict [])) st of (c, st1) \<Rightarrow>
      case as_slot (py_get d ''settings'' (PDict [])) st1 of (s, st2) \<Rightarrow>
      case as_slot (py_get d ''metadata'' (PDict [])) st2 of (m, st3) \<Rightarrow>
        Some (\<lparr>ps_platform = py_get d ''platform'' (PStr ''unknown''),
               ps_credentials = c,
               ps_created_at = py_get d ''created_at'' (PStr []),
               ps_last_used = py_get d ''last_used'' (PStr []),
               ps_is_active = py_get d ''is_active'' (PBool False),
               ps_settings = s,
               ps_metadata = m\<rparr>, st3))"
| "PlatformSession_from_dict v st = None"

definition APIKey_to_dict :: "api_key \<Rightarrow> pyval" where
  "APIKey_to_dict k = PDict
     [(''provider'', ak_provider k), (''key'', ak_key k), (''added_at'', ak_added_at k),
      (''tokens_used'', ak_tokens_used k), (''tokens_remaining'', ak_tokens_remaining k),
      (''is_active'', ak_is_active k), (''last_used'', ak_last_used k)]"

text \<open>\<^verbatim>\<open>APIKey.from_dict\<close> is \<^verbatim>\<open>cls(**data)\<close>: it raises (\<open>None\<close>) when the data is no
  dictionary, has a key that is no field, or lacks a field without default.\<close>

fun APIKey_from_dict :: "pyval \<Rightarrow> api_key option" where
  "APIKey_from_dict (PDict d) =
     (if list_all (\<lambda>k. k \<in> set [''provider'', ''key'', ''added_at'', ''tokens_used'',
                                  ''tokens_remaining'', ''is_active'', ''last_used''])
           (map fst d)
         \<and> list_all (\<lambda>k. map_of d k \<noteq> None) [''provider'', ''key'', ''added_at'']
      then Some
        \<lparr>ak_provider = py_get d ''provider'' PNone,
         ak_key = py_get d ''key'' PNone,
         ak_added_at = py_get d ''added_at'' PNone,
         ak_tokens_used = py_get d ''tokens_used'' (PInt 0),
         ak_tokens_remaining = py_get d ''tokens_remaining'' (PInt (- 1)),
         ak_is_active = py_get d ''is_active'' (PBool True),
         ak_last_used = py_get d ''last_used'' (PStr [])\<rparr>
      else None)"
| "APIKey_from_dict v = None"

text \<open>The two loops of \<^verbatim>\<open>_load_all\<close>; an exception of \<^verbatim>\<open>from_dict\<close> ends the loop and
  is caught, the entries stored before stay.\<close>

fun load_platform_entries :: "(string \<times> pyval) list \<Rightarrow> session_manager \<Rightarrow> session_manager" where
  "load_platform_entries [] st = st"
| "load_platform_entries ((p, v) # rest) st =
     (case PlatformSession_from_dict v st of
        Some (s, st1) \<Rightarrow>
          load_platform_entries rest (st1\<lparr>platforms := AList.update p s (platforms st1)\<rparr>)
      | None \<Rightarrow> st)"

fun load_key_entries :: "(string \<times> pyval) list \<Rightarrow> (string \<times> api_key) list
    \<Rightarrow> (string \<times> api_key) list" where
  "load_key_entries [] ks = ks"
| "load_key_entries ((p, v) # rest) ks =
     (case APIKey_from_dict v of
        Some k \<Rightarrow> load_key_entries rest (AList.update p k ks)
      | None \<Rightarrow> ks)"

definition load_platforms :: "session_manager \<Rightarrow> session_manager" where
  "load_platforms st =
     (case sessions_file st of
        Missing \<Rightarrow> st
      | Unparsable msg \<Rightarrow> st
      | Content (PDict data) \<Rightarrow>
          (case py_get data ''platforms'' (PDict []) of
             PDict entries \<Rightarrow> load_platform_entries entries st
           | _ \<Rightarrow> st)
      | Content _ \<Rightarrow> st)"

definition load_api_keys :: "session_manager \<Rightarrow> session_manager" where
  "load_api_keys st =
     (case api_keys_file st of
        Missing \<Rightarrow> st
      | Unparsable msg \<Rightarrow> st
      | Content (PDict data) \<Rightarrow>
          (case py_get data ''keys'' (PDict []) of
             PDict entries \<Rightarrow> st\<lparr>api_keys := load_key_entries entries (api_keys st)\<rparr>
           | _ \<Rightarrow> st)
      | Content _ \<Rightarrow> st)"

definition load_settings :: "session_manager \<Rightarrow> session_manager" where
  "load_settings st =
     (case settings_file st of
        Missing \<Rightarrow> st
      | Unparsable msg \<Rightarrow> st
      | Content data \<Rightarrow> st\<lparr>settings := data\<rparr>)"

text \<open>\<^verbatim>\<open>_load_all\<close>: platforms, then API keys, then settings, each in its own
  \<^verbatim>\<open>try\<close>.\<close>

definition load_all :: "session_manager \<Rightarrow> session_manager" where
  "load_all st = load_settings (load_api_keys (load_platforms st))"

text \<open>
  \<^verbatim>\<open>SessionManager.__init__\<close> from the point where \<^verbatim>\<open>os.makedirs\<close> has returned: empty
  dictionaries, then \<^verbatim>\<open>_load_all\<close>, for the given contents of the three files and an
  empty store of objects.
\<close>

definition SessionManager :: "file_state \<Rightarrow> file_state \<Rightarrow> file_state \<Rightarrow> session_manager" where
  "SessionManager pf kf sf =
     load_all \<lparr>platforms = [], api_keys = [], settings = PDict [],
               sessions_file = pf, api_keys_file = kf, settings_file = sf,
               heap = (\<lambda>a. []), next_addr = 0\<rparr>"

text \<open>
  The whole of \<^verbatim>\<open>SessionManager.__init__\<close>. \<open>mk\<close> is the exception of
  \<^verbatim>\<open>os.makedirs(self.sessions_path, exist_ok=True)\<close>, if it raises; it is outside any
  \<^verbatim>\<open>try\<close> and escapes. (Which directory is used, the argument or the default next to
  the module, decides only which three files are read.)
\<close>

definition SessionManager_init :: "string option \<Rightarrow> file_state \<Rightarrow> file_state \<Rightarrow> file_state
    \<Rightarrow> session_manager outcome" where
  "SessionManager_init mk pf kf sf =
     (case mk of Some msg \<Rightarrow> Raises msg | None \<Rightarrow> Returns (SessionManager pf kf sf))"

definition save_platforms :: "env \<Rightarrow> string \<Rightarrow> session_manager \<Rightarrow> string option \<times> session_manager" where
  "save_platforms e k st =
     (case write_file e k of
        WriteOk \<Rightarrow>
          (None, st\<lparr>sessions_file := Content (PDict
             [(''platforms'',
               PDict (map (\<lambda>(p, s). (p, PlatformSession_to_dict (heap st) s)) (platforms st))),
              (''last_saved'', PStr (saved_at e k))])\<rparr>)
      | WriteFails msg f \<Rightarrow> (Some msg, st\<lparr>sessions_file := f\<rparr>))"

definition save_api_keys :: "env \<Rightarrow> string \<Rightarrow> session_manager \<Rightarrow> string option \<times> session_manager" where
  "save_api_keys e k st =
     (case write_file e k of
        WriteOk \<Rightarrow>
          (None, st\<lparr>api_keys_file := Content (PDict
             [(''keys'', PDict (map (\<lambda>(p, a). (p, APIKey_to_dict a)) (api_keys st))),
              (''last_saved'', PStr (saved_at e k))])\<rparr>)
      | WriteFails msg f \<Rightarrow> (Some msg, st\<lparr>api_keys_file := f\<rparr>))"

text \<open>\<^verbatim>\<open>d.update(new)\<close> on the content of a dictionary: every pair of \<open>new\<close> is stored,
  in order.\<close>

definition dict_update :: "(string \<times> pyval) list \<Rightarrow> (string \<times> pyval) list \<Rightarrow> (string \<times> pyval) list" where
  "dict_update d new = fold (\<lambda>(k, v). AList.update k v) new d"

text \<open>The content of an optional dictionary argument; \<^verbatim>\<open>None\<close> counts as empty.\<close>

fun arg_dict :: "session_manager \<Rightarrow> addr option \<Rightarrow> (string \<times> pyval) list" where
  "arg_dict st None = []"
| "arg_dict st (Some a) = heap st a"

text \<open>
  \<^verbatim>\<open>target.update(arg)\<close> for the object \<open>a\<close>: the object behind a reference is changed
  in the store, for every field that refers to it; a target that is no dictionary has no
  \<^verbatim>\<open>update\<close> and the attribute lookup raises.
\<close>

fun update_slot :: "slot \<Rightarrow> addr \<Rightarrow> session_manager \<Rightarrow> string + slot \<times> session_manager" where
  "update_slot (Ref t) a st =
     Inr (Ref t, st\<lparr>heap := (heap st)(t := dict_update (heap st t) (heap st a))\<rparr>)"
| "update_slot (Val (PDict d)) a st = Inr (Val (PDict (dict_update d (heap st a))), st)"
| "update_slot (Val v) a st =
     Inl ([CHR 0x27] @ py_type_name v @ [CHR 0x27] @ '' object has no attribute ''
          @ [CHR 0x27] @ ''update'' @ [CHR 0x27])"

text \<open>\<^verbatim>\<open>if arg: target.update(arg)\<close> for an optional dictionary argument: nothing happens
  for \<^verbatim>\<open>None\<close> and for an empty dictionary.\<close>

fun update_if_given :: "slot \<Rightarrow> addr option \<Rightarrow> session_manager \<Rightarrow> string + slot \<times> session_manager" where
  "update_if_given target None st = Inr (target, st)"
| "update_if_given target (Some a) st =
     (if heap st a = [] then Inr (target, st) else update_slot target a st)"

text \<open>\<^verbatim>\<open>arg or {}\<close> for an optional dictionary argument: the object given, or a new empty
  dictionary for \<^verbatim>\<open>None\<close> and for an empty one.\<close>

fun or_empty :: "addr option \<Rightarrow> session_manager \<Rightarrow> slot \<times> session_manager" where
  "or_empty None st = (case alloc [] st of (a, st1) \<Rightarrow> (Ref a, st1))"
| "or_empty (Some a) st =
     (if heap st a = [] then (case alloc [] st of (b, st1) \<Rightarrow> (Ref b, st1)) else (Ref a, st))"

text \<open>The end of \<^verbatim>\<open>save_platform\<close>: store the session, write the file, return the
  session. An exception of the write escapes.\<close>

definition store_platform :: "env \<Rightarrow> string \<Rightarrow> platform_session \<Rightarrow> session_manager
    \<Rightarrow> platform_session outcome \<times> session_manager" where
  "store_platform e p session st =
     (case save_platforms e p (st\<lparr>platforms := AList.update p session (platforms st)\<rparr>) of
        (None, st2) \<Rightarrow> (Returns session, st2)
      | (Some msg, st2) \<Rightarrow> (Raises msg, st2))"

text \<open>
  \<^verbatim>\<open>save_platform\<close>, called with the dictionary object \<open>creds\<close> and the optional objects
  \<open>sett\<close> and \<open>meta\<close>. An existing session object is changed in place, field by field, so
  an exception of \<^verbatim>\<open>update\<close> leaves the fields assigned before it changed. The
  credentials field refers to the object given; settings and metadata of an existing
  session stay the objects they were and are updated in the store.
\<close>

definition save_platform :: "env \<Rightarrow> string \<Rightarrow> addr \<Rightarrow> addr option \<Rightarrow> addr option
    \<Rightarrow> session_manager \<Rightarrow> platform_session outcome \<times> session_manager" where
  "save_platform e p creds sett meta st =
     (case map_of (platforms st) p of
        Some session \<Rightarrow>
          (let s1 = session\<lparr>ps_credentials := Ref creds, ps_last_used := PStr (now e p),
                            ps_is_active := PBool True\<rparr>
           in case update_if_given (ps_settings s1) sett st of
                Inl msg \<Rightarrow> (Raises msg, st\<lparr>platforms := AList.update p s1 (platforms st)\<rparr>)
              | Inr (sv, st1) \<Rightarrow>
                  (let s2 = s1\<lparr>ps_settings := sv\<rparr>
                   in case update_if_given (ps_metadata s2) meta st1 of
                        Inl msg \<Rightarrow>
                          (Raises msg, st1\<lparr>platforms := AList.update p s2 (platforms st1)\<rparr>)
                      | Inr (mv, st2) \<Rightarrow> store_platform e p (s2\<lparr>ps_metadata := mv\<rparr>) st2))
      | None \<Rightarrow>
          (case or_empty sett st of (sv, st1) \<Rightarrow>
           case or_empty meta st1 of (mv, st2) \<Rightarrow>
             store_platform e p
               \<lparr>ps_platform = PStr p, ps_credentials = Ref creds,
                ps_created_at = PStr (now e p), ps_last_used = PStr (now e p),
                ps_is_active = PBool True, ps_settings = sv, ps_metadata = mv\<rparr> st2))"

text \<open>\<^verbatim>\<open>save_api_key\<close>: a new \<^verbatim>\<open>APIKey\<close> with the defaults of the dataclass.\<close>

definition save_api_key :: "env \<Rightarrow> string \<Rightarrow> string \<Rightarrow> session_manager
    \<Rightarrow> api_key outcome \<times> session_manager" where
  "save_api_key e provider k st =
     (let a = \<lparr>ak_provider = PStr provider, ak_key = PStr k,
                ak_added_at = PStr (now e provider), ak_tokens_used = PInt 0,
                ak_tokens_remaining = PInt (- 1), ak_is_active = PBool True,
                ak_last_used = PStr (now e provider)\<rparr>
      in case save_api_keys e provider (st\<lparr>api_keys := AList.update provider a (api_keys st)\<rparr>) of
           (None, st2) \<Rightarrow> (Returns a, st2)
         | (Some msg, st2) \<Rightarrow> (Raises msg, st2))"

section \<open>Example environments and states\<close>

text \<open>An environment in which every handle is alive and everything succeeds, and
  variants of it in which one answer differs.\<close>

definition quiet_env :: env where
  "quiet_env =
     \<lparr>poll_running = (\<lambda>n. True), popen = (\<lambda>n c l. Launched 4242),
      now = (\<lambda>n. ''2024-05-01T10:00:00''), killpg_term = (\<lambda>n p. None),
      wait_grace = (\<lambda>n. WaitExited), killpg_kill = (\<lambda>n p. None),
      write_file = (\<lambda>n. WriteOk), saved_at = (\<lambda>n. ''2024-05-01T10:00:01'')\<rparr>"

definition no_launch_env :: env where
  "no_launch_env = quiet_env\<lparr>popen := \<lambda>n c l. LaunchRaises ''[Errno 13] Permission denied''\<rparr>"

definition stubborn_env :: env where
  "stubborn_env = quiet_env\<lparr>wait_grace := \<lambda>n. WaitTimeout\<rparr>"

definition gone_env :: env where
  "gone_env = quiet_env\<lparr>killpg_term := \<lambda>n p. Some ''[Errno 3] No such process''\<rparr>"

definition full_disk_env :: env where
  "full_disk_env =
     quiet_env\<lparr>write_file := \<lambda>n. WriteFails ''[Errno 28] No space left on device'' Missing\<rparr>"

definition exited_env :: env where
  "exited_env = quiet_env\<lparr>poll_running := \<lambda>n. False\<rparr>"

text \<open>A registered service, before and after a successful start.\<close>

definition bot :: service where
  "bot = \<lparr>svc_name = PStr ''bot'', svc_platform = PStr ''telegram'',
          svc_command = PStr ''sleep 9999'', svc_pid = PNone, svc_status = ''stopped'',
          svc_started_at = PNone, svc_log_file = PStr ''logs/bot.log'',
          svc_auto_restart = PBool True, svc_restart_count = 0, svc_max_restarts = 5\<rparr>"

definition bot_running :: service where
  "bot_running = bot\<lparr>svc_pid := PInt 4242, svc_status := ''running'',
                      svc_started_at := PStr ''2024-05-01T10:00:00''\<rparr>"

definition registered :: service_manager where
  "registered = \<lparr>logs_dir = ''logs'', services = [(''bot'', bot)], processes = [],
                 services_file = Missing\<rparr>"

definition running :: service_manager where
  "running = \<lparr>logs_dir = ''logs'', services = [(''bot'', bot_running)],
              processes = [(''bot'', Popen 4242)], services_file = Missing\<rparr>"

text \<open>The manager after a launch of \<open>bot\<close> that raised: status \<open>crashed\<close>, no handle.\<close>

definition crashed :: service_manager where
  "crashed = registered\<lparr>services := [(''bot'', bot\<lparr>svc_status := ''crashed''\<rparr>)]\<rparr>"

text \<open>What \<^verbatim>\<open>_save_services\<close> writes for the running manager.\<close>

definition saved_running :: file_state where
  "saved_running = services_file (snd (save_services quiet_env ''bot'' running))"

text \<open>A later point in time; a session manager without records, and one with a used,
  deactivated API key.\<close>

definition later_env :: env where
  "later_env = quiet_env\<lparr>now := \<lambda>n. ''2024-05-02T09:00:00''\<rparr>"

definition no_sessions :: session_manager where
  "no_sessions = \<lparr>platforms = [], api_keys = [], settings = PDict [],
                  sessions_file = Missing, api_keys_file = Missing, settings_file = Missing,
                  heap = (\<lambda>a. []), next_addr = 0\<rparr>"

definition old_key :: api_key where
  "old_key = \<lparr>ak_provider = PStr ''openai'', ak_key = PStr ''sk-old'',
              ak_added_at = PStr ''2023-01-01T00:00:00'', ak_tokens_used = PInt 500,
              ak_tokens_remaining = PInt 1500, ak_is_active = PBool False,
              ak_last_used = PStr ''2023-06-01T00:00:00''\<rparr>"

definition with_old_key :: session_manager where
  "with_old_key = no_sessions\<lparr>api_keys := [(''openai'', old_key)]\<rparr>"

text \<open>
  The scenario of the specification. The caller has built four dictionaries, at the
  addresses 0 to 3: \<open>{token: A}\<close>, \<open>{x: 1}\<close>, \<open>{token: B}\<close> and \<open>{y: 2}\<close>. The first call
  saves \<open>telegram\<close> with the objects 0 and 1 as credentials and metadata; the record it
  creates gets a new empty dictionary, at address 4, as settings.
\<close>

definition before_setup :: session_manager where
  "before_setup = no_sessions
     \<lparr>heap := (\<lambda>a. [])(0 := [(''token'', PStr ''A'')], 1 := [(''x'', PInt 1)],
                        2 := [(''token'', PStr ''B'')], 3 := [(''y'', PInt 2)]),
      next_addr := 4\<rparr>"

definition telegram_a :: platform_session where
  "telegram_a = \<lparr>ps_platform = PStr ''telegram'', ps_credentials = Ref 0,
                 ps_created_at = PStr ''2024-05-01T10:00:00'',
                 ps_last_used = PStr ''2024-05-01T10:00:00'', ps_is_active = PBool True,
                 ps_settings = Ref 4, ps_metadata = Ref 1\<rparr>"

definition after_setup :: session_manager where
  "after_setup = snd (save_platform quiet_env ''telegram'' 0 None (Some 1) before_setup)"

text \<open>
  A platforms file whose record has a list as metadata, the manager constructed from
  it, and that manager after the caller has built the dictionaries \<open>{token: B}\<close> and
  \<open>{y: 2}\<close> (at the addresses 2 and 3; the load has used 0 and 1).
\<close>

definition odd_file :: file_state where
  "odd_file = Content (PDict [(''platforms'', PDict [(''telegram'', PDict
      [(''platform'', PStr ''telegram''), (''credentials'', PDict [(''token'', PStr ''A'')]),
       (''metadata'', PList [PInt 1, PInt 2])])])])"

definition odd_session :: session_manager where
  "odd_session =
     snd (alloc [(''y'', PInt 2)]
       (snd (alloc [(''token'', PStr ''B'')] (SessionManager odd_file Missing Missing))))"

text \<open>Three registered services and an environment in which the launch of \<open>b\<close> raises.\<close>

definition b_fails_env :: env where
  "b_fails_env = quiet_env\<lparr>popen := \<lambda>n c l.
      if n = ''b'' then LaunchRaises ''[Errno 2] No such file or directory''
      else Launched (if n = ''a'' then 101 else 103)\<rparr>"

definition trio :: service_manager where
  "trio = \<lparr>logs_dir = ''logs'',
           services = [(''a'', bot\<lparr>svc_name := PStr ''a''\<rparr>), (''b'', bot\<lparr>svc_name := PStr ''b''\<rparr>),
                       (''c'', bot\<lparr>svc_name := PStr ''c''\<rparr>)],
           processes = [], services_file = Missing\<rparr>"

section \<open>Starting a service\<close>

text \<open>
  Claim C1, as amended. For a registered service whose tracked handle is still running,
  \<^verbatim>\<open>start_service\<close> returns the failure result "Service '<name>' is already running"
  (not a success) and leaves the whole state as it was: no launch is attempted, the
  handle and the pid of the record are unchanged.
\<close>

theorem start_service_already_running:
  assumes "map_of (services st) n = Some svc"
    and "map_of (processes st) n = Some h"
    and "poll_running e n"
  shows "start_service e n st =
           (Returns (Failure (''Service '' @ [CHR 0x27] @ n @ [CHR 0x27] @ '' is already running'')), st)"
  using assms by (simp add: start_service_def)

theorem start_service_already_running_witness:
  "map_of (services running) ''bot'' = Some bot_running
   \<and> map_of (processes running) ''bot'' = Some (Popen 4242)
   \<and> poll_running quiet_env ''bot''
   \<and> start_service quiet_env ''bot'' running =
        (Returns (Failure ''Service 'bot' is already running''), running)"
  using start_service_already_running [of running "''bot''" bot_running "Popen 4242" quiet_env]
  by (simp add: running_def quiet_env_def)

text \<open>The claim as stated fails: the result of the second start is not a success.\<close>

theorem start_service_running_counterexample:
  "map_of (services running) ''bot'' = Some bot_running
   \<and> map_of (processes running) ''bot'' = Some (Popen 4242)
   \<and> poll_running quiet_env ''bot''
   \<and> fst (start_service quiet_env ''bot'' running)
        = Returns (Failure ''Service 'bot' is already running'')
   \<and> \<not> success (Failure ''Service 'bot' is already running'')"
  by (simp add: running_def quiet_env_def start_service_def)

text \<open>
  Claim C7. For a registered service that is not already running, when the launch
  raises, \<^verbatim>\<open>start_service\<close> returns (it does not raise) a failure result carrying the
  text of the exception, and the record of the service has status \<open>crashed\<close>; nothing
  else of the state changes.
\<close>

theorem start_service_launch_failure:
  assumes "map_of (services st) n = Some svc"
    and "\<not> (map_of (processes st) n \<noteq> None \<and> poll_running e n)"
    and "popen e n (svc_command svc) (log_path st n svc) = LaunchRaises msg"
  shows "start_service e n st =
           (Returns (Failure msg),
            st\<lparr>services := AList.update n (svc\<lparr>svc_status := ''crashed''\<rparr>) (services st)\<rparr>)
         \<and> map_of (services (snd (start_service e n st))) n = Some (svc\<lparr>svc_status := ''crashed''\<rparr>)"
  using assms by (auto simp add: start_service_def update_conv')

theorem start_service_launch_failure_witness:
  "map_of (services registered) ''bot'' = Some bot
   \<and> \<not> (map_of (processes registered) ''bot'' \<noteq> None \<and> poll_running no_launch_env ''bot'')
   \<and> popen no_launch_env ''bot'' (svc_command bot) (log_path registered ''bot'' bot)
        = LaunchRaises ''[Errno 13] Permission denied''
   \<and> fst (start_service no_launch_env ''bot'' registered)
        = Returns (Failure ''[Errno 13] Permission denied'')
   \<and> map_of (services (snd (start_service no_launch_env ''bot'' registered))) ''bot''
        = Some (bot\<lparr>svc_status := ''crashed''\<rparr>)"
  using start_service_launch_failure
    [of registered "''bot''" bot no_launch_env "''[Errno 13] Permission denied''"]
  by (simp add: registered_def no_launch_env_def quiet_env_def)

section \<open>Stopping a service\<close>

text \<open>
  Claim C6, as amended. For a registered service without a tracked handle,
  \<^verbatim>\<open>stop_service\<close> returns the success result "Service '<name>' was not running"
  whenever the services file can be written.
\<close>

theorem stop_service_not_running:
  assumes "map_of (services st) n = Some svc"
    and "map_of (processes st) n = None"
    and "write_file e n = WriteOk"
  shows "fst (stop_service e n st) =
           Returns (Success None (''Service '' @ [CHR 0x27] @ n @ [CHR 0x27] @ '' was not running''))"
  using assms by (simp add: stop_service_def save_services_def)

theorem stop_service_not_running_witness:
  "map_of (services registered) ''bot'' = Some bot
   \<and> map_of (processes registered) ''bot'' = None
   \<and> write_file quiet_env ''bot'' = WriteOk
   \<and> fst (stop_service quiet_env ''bot'' registered)
        = Returns (Success None ''Service 'bot' was not running'')"
  using stop_service_not_running [of registered "''bot''" bot quiet_env]
  by (simp add: registered_def quiet_env_def)

text \<open>The claim as stated fails when the write raises: the save is outside the \<^verbatim>\<open>try\<close>
  and the call returns no result.\<close>

theorem stop_service_write_fails_counterexample:
  "map_of (services registered) ''bot'' = Some bot
   \<and> map_of (processes registered) ''bot'' = None
   \<and> fst (stop_service full_disk_env ''bot'' registered)
       = Raises ''[Errno 28] No space left on device''"
  by (simp add: registered_def full_disk_env_def quiet_env_def stop_service_def save_services_def)

text \<open>
  Claim C3, as amended. For a registered service with a tracked handle: when the
  graceful signal is delivered and the process either exits within the grace period or
  is killed after it, \<^verbatim>\<open>stop_service\<close> removes the handle and sets status \<open>stopped\<close>
  and pid \<open>None\<close> in the record, and when the services file can then be written, it
  returns success and the file holds the records of the new state. When signalling
  raises (the graceful signal, the wait, or the kill signal after a timeout),
  \<^verbatim>\<open>stop_service\<close> returns a failure result with the text of the exception and leaves
  the whole state, the handle and the record included, unchanged.
\<close>

theorem stop_service_clears:
  assumes "map_of (services st) n = Some svc"
    and "map_of (processes st) n = Some h"
  shows "(killpg_term e n (handle_pid h) = None
          \<and> (wait_grace e n = WaitExited
              \<or> (wait_grace e n = WaitTimeout \<and> killpg_kill e n (handle_pid h) = None))
         \<longrightarrow> map_of (processes (snd (stop_service e n st))) n = None
           \<and> map_of (services (snd (stop_service e n st))) n
               = Some (svc\<lparr>svc_status := ''stopped'', svc_pid := PNone\<rparr>)
           \<and> (write_file e n = WriteOk \<longrightarrow>
                fst (stop_service e n st) =
                  Returns (Success None (''Service '' @ [CHR 0x27] @ n @ [CHR 0x27] @ '' stopped''))
                \<and> services_file (snd (stop_service e n st)) =
                    Content (services_json (saved_at e n) (services (snd (stop_service e n st))))))
       \<and> (killpg_term e n (handle_pid h) = Some msg
          \<or> (killpg_term e n (handle_pid h) = None
              \<and> (wait_grace e n = WaitRaises msg
                  \<or> (wait_grace e n = WaitTimeout \<and> killpg_kill e n (handle_pid h) = Some msg)))
         \<longrightarrow> stop_service e n st = (Returns (Failure msg), st))"
proof (intro conjI impI)
  assume "killpg_term e n (handle_pid h) = None
          \<and> (wait_grace e n = WaitExited
              \<or> (wait_grace e n = WaitTimeout \<and> killpg_kill e n (handle_pid h) = None))"
  then have t: "terminate e n h = None"
    by (auto simp add: terminate_def)
  show "map_of (processes (snd (stop_service e n st))) n = None"
    using assms t
    by (simp add: stop_service_def save_services_def delete_conv' split: write_outcome.splits)
  show "map_of (services (snd (stop_service e n st))) n
               = Some (svc\<lparr>svc_status := ''stopped'', svc_pid := PNone\<rparr>)"
    using assms t
    by (simp add: stop_service_def save_services_def update_conv' split: write_outcome.splits)
  assume "write_file e n = WriteOk"
  then show "fst (stop_service e n st) =
                  Returns (Success None (''Service '' @ [CHR 0x27] @ n @ [CHR 0x27] @ '' stopped''))"
    and "services_file (snd (stop_service e n st)) =
                    Content (services_json (saved_at e n) (services (snd (stop_service e n st))))"
    using assms t by (simp_all add: stop_service_def save_services_def)
next
  assume "killpg_term e n (handle_pid h) = Some msg
          \<or> (killpg_term e n (handle_pid h) = None
              \<and> (wait_grace e n = WaitRaises msg
                  \<or> (wait_grace e n = WaitTimeout \<and> killpg_kill e n (handle_pid h) = Some msg)))"
  then have t: "terminate e n h = Some msg"
    by (auto simp add: terminate_def)
  show "stop_service e n st = (Returns (Failure msg), st)"
    using assms t by (simp add: stop_service_def)
qed

theorem stop_service_clears_witness:
  "map_of (services running) ''bot'' = Some bot_running
   \<and> map_of (processes running) ''bot'' = Some (Popen 4242)
   \<and> killpg_term stubborn_env ''bot'' 4242 = None
   \<and> wait_grace stubborn_env ''bot'' = WaitTimeout
   \<and> killpg_kill stubborn_env ''bot'' 4242 = None
   \<and> write_file stubborn_env ''bot'' = WriteOk
   \<and> map_of (processes (snd (stop_service stubborn_env ''bot'' running))) ''bot'' = None
   \<and> map_of (services (snd (stop_service stubborn_env ''bot'' running))) ''bot''
       = Some (bot_running\<lparr>svc_status := ''stopped'', svc_pid := PNone\<rparr>)
   \<and> fst (stop_service stubborn_env ''bot'' running)
       = Returns (Success None ''Service 'bot' stopped'')
   \<and> killpg_term stubborn_env ''bot'' 4242 = None
   \<and> wait_grace (quiet_env\<lparr>wait_grace := \<lambda>n. WaitRaises ''[Errno 10] No child processes''\<rparr>) ''bot''
       = WaitRaises ''[Errno 10] No child processes''
   \<and> stop_service (quiet_env\<lparr>wait_grace := \<lambda>n. WaitRaises ''[Errno 10] No child processes''\<rparr>)
        ''bot'' running
       = (Returns (Failure ''[Errno 10] No child processes''), running)"
  using stop_service_clears [of running "''bot''" bot_running "Popen 4242" stubborn_env]
        stop_service_clears [of running "''bot''" bot_running "Popen 4242"
          "quiet_env\<lparr>wait_grace := \<lambda>n. WaitRaises ''[Errno 10] No child processes''\<rparr>"
          "''[Errno 10] No child processes''"]
  by (simp add: running_def stubborn_env_def quiet_env_def)

text \<open>The claim as stated fails when signalling raises: the handle stays tracked and the
  record keeps status \<open>running\<close> and its pid.\<close>

theorem stop_service_signal_raises_counterexample:
  "map_of (services running) ''bot'' = Some bot_running
   \<and> map_of (processes running) ''bot'' = Some (Popen 4242)
   \<and> stop_service gone_env ''bot'' running
       = (Returns (Failure ''[Errno 3] No such process''), running)
   \<and> svc_status bot_running = ''running'' \<and> svc_pid bot_running = PInt 4242"
  by (simp add: running_def gone_env_def quiet_env_def stop_service_def terminate_def
        bot_running_def bot_def)

section \<open>The status query\<close>

text \<open>
  Claim C5, as amended. For a registered service, \<^verbatim>\<open>get_service_status\<close> reports
  \<open>running\<close> when a handle is tracked and still running, \<open>crashed\<close> when a tracked
  handle has terminated, and \<open>stopped\<close> when no handle is tracked, whatever status the
  record had before.
\<close>

theorem get_service_status_reports:
  assumes "map_of (services st) n = Some svc"
  shows "map_option rep_status (fst (get_service_status e n st)) =
           Some (if map_of (processes st) n = None then ''stopped''
                 else if poll_running e n then ''running'' else ''crashed'')"
  using assms by (auto simp add: get_service_status_def Let_def split: option.splits)

theorem get_service_status_reports_witness:
  "map_of (services running) ''bot'' = Some bot_running
   \<and> map_option rep_status (fst (get_service_status exited_env ''bot'' running))
       = Some ''crashed''"
  using get_service_status_reports [of running "''bot''" bot_running exited_env]
  by (simp add: running_def exited_env_def quiet_env_def)

text \<open>The claim as stated fails: a record with last-known status \<open>crashed\<close> and no handle
  is reported as \<open>stopped\<close>.\<close>

theorem get_service_status_crashed_counterexample:
  "map_of (services crashed) ''bot'' = Some (bot\<lparr>svc_status := ''crashed''\<rparr>)
   \<and> map_of (processes crashed) ''bot'' = None
   \<and> svc_status (bot\<lparr>svc_status := ''crashed''\<rparr>) = ''crashed''
   \<and> map_option rep_status (fst (get_service_status quiet_env ''bot'' crashed))
       = Some ''stopped''"
  by (simp add: crashed_def registered_def get_service_status_def)

section \<open>Loading the stores\<close>

lemma set_update_subset: "set (AList.update k v al) \<subseteq> insert (k, v) (set al)"
  by (induction al) auto

lemma load_entries_invariant:
  assumes "\<forall>(n, svc) \<in> set svcs. P svc"
    and "\<And>n d. P (loaded_service n d)"
  shows "\<forall>(n, svc) \<in> set (load_entries entries svcs). P svc"
  using assms(1)
proof (induction entries svcs rule: load_entries.induct)
  case (2 n d rest svcs)
  have "\<forall>(m, svc) \<in> set (AList.update n (loaded_service n d) svcs). P svc"
    using set_update_subset [of n "loaded_service n d" svcs] 2(2) assms(2) by auto
  then show ?case using 2(1) by simp
qed simp_all

lemma load_entries_lookup:
  assumes "\<forall>(m, v) \<in> set entries. \<exists>d. v = PDict d"
    and "distinct (map fst entries)"
  shows "map_of (load_entries entries svcs) n =
           (case map_of entries n of
              Some (PDict d) \<Rightarrow> Some (loaded_service n d)
            | _ \<Rightarrow> map_of svcs n)"
  using assms
proof (induction entries svcs rule: load_entries.induct)
  case (2 m d rest svcs)
  then have "map_of rest m = None"
    by (simp add: map_of_eq_None_iff)
  with 2 show ?case
    by (auto simp add: update_conv' split: option.splits pyval.splits)
qed auto

text \<open>
  Claim C2, as amended. Whatever the services file holds, every record loaded at
  construction has status \<open>stopped\<close> and restart count 0. When the file is a document
  as \<^verbatim>\<open>_save_services\<close> writes it (a dictionary of dictionaries under \<open>services\<close>), the
  record loaded for a name has the persisted values of name, platform, command, pid,
  start time, log file and auto-restart flag (the defaults where a key is absent): the
  persisted pid is kept, not reset to \<open>None\<close>.
\<close>

theorem load_services_normalizes:
  "(\<forall>(n, svc) \<in> set (services (ServiceManager dir f)).
        svc_status svc = ''stopped'' \<and> svc_restart_count svc = 0)
   \<and> (f = Content (PDict data) \<and> py_get data ''services'' (PDict []) = PDict entries
        \<and> distinct (map fst entries) \<and> (\<forall>(m, v) \<in> set entries. \<exists>d'. v = PDict d')
        \<and> map_of entries n = Some (PDict d)
      \<longrightarrow> map_of (services (ServiceManager dir f)) n = Some
            \<lparr>svc_name = py_get d ''name'' (PStr n),
             svc_platform = py_get d ''platform'' (PStr ''unknown''),
             svc_command = py_get d ''command'' (PStr []),
             svc_pid = py_get d ''pid'' PNone,
             svc_status = ''stopped'',
             svc_started_at = py_get d ''started_at'' PNone,
             svc_log_file = py_get d ''log_file'' (PStr []),
             svc_auto_restart = py_get d ''auto_restart'' (PBool True),
             svc_restart_count = 0,
             svc_max_restarts = 5\<rparr>)"
proof (intro conjI impI)
  have inv: "\<forall>(n, svc) \<in> set (load_entries entries' []).
        svc_status svc = ''stopped'' \<and> svc_restart_count svc = 0" for entries'
    by (rule load_entries_invariant) (simp_all add: loaded_service_def)
  show "\<forall>(n, svc) \<in> set (services (ServiceManager dir f)).
        svc_status svc = ''stopped'' \<and> svc_restart_count svc = 0"
    using inv
    by (simp add: ServiceManager_def load_services_def split: file_state.splits pyval.splits)
next
  assume a: "f = Content (PDict data) \<and> py_get data ''services'' (PDict []) = PDict entries
        \<and> distinct (map fst entries) \<and> (\<forall>(m, v) \<in> set entries. \<exists>d'. v = PDict d')
        \<and> map_of entries n = Some (PDict d)"
  then have "map_of (load_entries entries []) n = Some (loaded_service n d)"
    using load_entries_lookup [of entries "[]" n] by simp
  with a show "map_of (services (ServiceManager dir f)) n = Some
            \<lparr>svc_name = py_get d ''name'' (PStr n),
             svc_platform = py_get d ''platform'' (PStr ''unknown''),
             svc_command = py_get d ''command'' (PStr []),
             svc_pid = py_get d ''pid'' PNone,
             svc_status = ''stopped'',
             svc_started_at = py_get d ''started_at'' PNone,
             svc_log_file = py_get d ''log_file'' (PStr []),
             svc_auto_restart = py_get d ''auto_restart'' (PBool True),
             svc_restart_count = 0,
             svc_max_restarts = 5\<rparr>"
    by (simp add: ServiceManager_def load_services_def loaded_service_def)
qed

lemma saved_running_eq:
  "saved_running = Content (PDict
      [(''services'', PDict [(''bot'', PDict
          [(''name'', PStr ''bot''), (''platform'', PStr ''telegram''),
           (''command'', PStr ''sleep 9999''), (''pid'', PInt 4242),
           (''started_at'', PStr ''2024-05-01T10:00:00''),
           (''log_file'', PStr ''logs/bot.log''), (''auto_restart'', PBool True)])]),
       (''last_saved'', PStr ''2024-05-01T10:00:01'')])"
  by (simp add: saved_running_def save_services_def quiet_env_def running_def bot_running_def
        bot_def services_json_def service_to_json_def)

theorem load_services_normalizes_witness:
  "saved_running = Content (PDict
      [(''services'', PDict [(''bot'', PDict
          [(''name'', PStr ''bot''), (''platform'', PStr ''telegram''),
           (''command'', PStr ''sleep 9999''), (''pid'', PInt 4242),
           (''started_at'', PStr ''2024-05-01T10:00:00''),
           (''log_file'', PStr ''logs/bot.log''), (''auto_restart'', PBool True)])]),
       (''last_saved'', PStr ''2024-05-01T10:00:01'')])
   \<and> map_of (services (ServiceManager ''srv'' saved_running)) ''bot'' =
     Some (bot\<lparr>svc_pid := PInt 4242, svc_started_at := PStr ''2024-05-01T10:00:00''\<rparr>)
   \<and> list_all (\<lambda>(n, svc). svc_status svc = ''stopped'' \<and> svc_restart_count svc = 0)
        (services (ServiceManager ''srv'' saved_running))"
  using load_services_normalizes [of "''srv''" saved_running
     "[(''services'', PDict [(''bot'', PDict
          [(''name'', PStr ''bot''), (''platform'', PStr ''telegram''),
           (''command'', PStr ''sleep 9999''), (''pid'', PInt 4242),
           (''started_at'', PStr ''2024-05-01T10:00:00''),
           (''log_file'', PStr ''logs/bot.log''), (''auto_restart'', PBool True)])]),
       (''last_saved'', PStr ''2024-05-01T10:00:01'')]"
     "[(''bot'', PDict
          [(''name'', PStr ''bot''), (''platform'', PStr ''telegram''),
           (''command'', PStr ''sleep 9999''), (''pid'', PInt 4242),
           (''started_at'', PStr ''2024-05-01T10:00:00''),
           (''log_file'', PStr ''logs/bot.log''), (''auto_restart'', PBool True)])]"
     "''bot''"
     "[(''name'', PStr ''bot''), (''platform'', PStr ''telegram''),
           (''command'', PStr ''sleep 9999''), (''pid'', PInt 4242),
           (''started_at'', PStr ''2024-05-01T10:00:00''),
           (''log_file'', PStr ''logs/bot.log''), (''auto_restart'', PBool True)]"]
  by (simp add: saved_running_eq py_get_def bot_def list_all_iff)

text \<open>The claim as stated fails: the record reloaded from the file written while the
  service ran has the pid of that run.\<close>

theorem load_services_keeps_pid_counterexample:
  "map_option svc_pid (map_of (services running) ''bot'') = Some (PInt 4242)
   \<and> map_option svc_pid (map_of (services (ServiceManager ''srv'' saved_running)) ''bot'')
        = Some (PInt 4242)
   \<and> PInt 4242 \<noteq> PNone"
  by (simp add: saved_running_eq ServiceManager_def load_services_def py_get_def
        loaded_service_def running_def bot_running_def)

lemma load_settings_keeps:
  "platforms (load_settings st) = platforms st" "api_keys (load_settings st) = api_keys st"
  by (simp_all add: load_settings_def split: file_state.splits)

lemma load_api_keys_keeps: "platforms (load_api_keys st) = platforms st"
  by (simp add: load_api_keys_def split: file_state.splits pyval.splits)

lemma as_slot_keeps:
  "as_slot v st = (s, st1) \<Longrightarrow> api_keys st1 = api_keys st \<and> api_keys_file st1 = api_keys_file st"
  by (cases v) (auto simp add: alloc_def)

lemma PlatformSession_from_dict_keeps:
  "PlatformSession_from_dict v st = Some (s, st1) \<Longrightarrow>
     api_keys st1 = api_keys st \<and> api_keys_file st1 = api_keys_file st"
  by (cases v) (auto split: prod.splits dest!: as_slot_keeps)

lemma load_platform_entries_keeps:
  "api_keys (load_platform_entries entries st) = api_keys st
   \<and> api_keys_file (load_platform_entries entries st) = api_keys_file st"
proof (induction entries st rule: load_platform_entries.induct)
  case (1 st)
  then show ?case by simp
next
  case (2 p v rest st)
  show ?case
  proof (cases "PlatformSession_from_dict v st")
    case None
    then show ?thesis by simp
  next
    case (Some r)
    obtain s st1 where r: "r = (s, st1)" by (cases r)
    have from_dict: "PlatformSession_from_dict v st = Some (s, st1)"
      using Some r by simp
    have kept: "api_keys st1 = api_keys st \<and> api_keys_file st1 = api_keys_file st"
      by (rule PlatformSession_from_dict_keeps [OF from_dict])
    have ih: "api_keys (load_platform_entries rest (st1\<lparr>platforms := AList.update p s (platforms st1)\<rparr>))
                = api_keys (st1\<lparr>platforms := AList.update p s (platforms st1)\<rparr>)
              \<and> api_keys_file (load_platform_entries rest (st1\<lparr>platforms := AList.update p s (platforms st1)\<rparr>))
                = api_keys_file (st1\<lparr>platforms := AList.update p s (platforms st1)\<rparr>)"
      by (rule "2.IH" [OF from_dict refl])
    have step: "load_platform_entries ((p, v) # rest) st
                  = load_platform_entries rest (st1\<lparr>platforms := AList.update p s (platforms st1)\<rparr>)"
      by (simp add: from_dict)
    show ?thesis
      unfolding step using ih kept by simp
  qed
qed

lemma load_platforms_keeps:
  "api_keys (load_platforms st) = api_keys st" "api_keys_file (load_platforms st) = api_keys_file st"
  by (simp_all add: load_platforms_def load_platform_entries_keeps
        split: file_state.splits pyval.splits)

lemma load_services_bad_file:
  "services_file st = Missing \<or> services_file st = Unparsable msg \<Longrightarrow> load_services st = st"
  by (auto simp add: load_services_def)

lemma load_platforms_bad_file:
  "sessions_file st = Missing \<or> sessions_file st = Unparsable msg \<Longrightarrow> load_platforms st = st"
  by (auto simp add: load_platforms_def)

lemma load_api_keys_bad_file:
  "api_keys_file st = Missing \<or> api_keys_file st = Unparsable msg \<Longrightarrow> load_api_keys st = st"
  by (auto simp add: load_api_keys_def)

text \<open>
  Claim C9. When the services file, the platforms file or the API keys file is missing
  or cannot be read or parsed, the constructor still yields a store, and the dictionary
  loaded from that file is empty. (The constructors are total: every exception of a
  load is caught inside it.)
\<close>

theorem load_of_bad_file_is_empty:
  "((f = Missing \<or> f = Unparsable msg) \<longrightarrow> services (ServiceManager dir f) = [])
   \<and> ((pf = Missing \<or> pf = Unparsable msg) \<longrightarrow> platforms (SessionManager pf kf sf) = [])
   \<and> ((kf = Missing \<or> kf = Unparsable msg) \<longrightarrow> api_keys (SessionManager pf kf sf) = [])"
proof (intro conjI impI)
  assume "f = Missing \<or> f = Unparsable msg"
  then show "services (ServiceManager dir f) = []"
    unfolding ServiceManager_def by (subst load_services_bad_file [where msg = msg]) simp_all
next
  assume "pf = Missing \<or> pf = Unparsable msg"
  then show "platforms (SessionManager pf kf sf) = []"
    unfolding SessionManager_def load_all_def load_settings_keeps load_api_keys_keeps
    by (subst load_platforms_bad_file [where msg = msg]) simp_all
next
  assume "kf = Missing \<or> kf = Unparsable msg"
  then show "api_keys (SessionManager pf kf sf) = []"
    unfolding SessionManager_def load_all_def load_settings_keeps
    by (subst load_api_keys_bad_file [where msg = msg]) (simp_all add: load_platforms_keeps)
qed

theorem load_of_bad_file_is_empty_witness:
  "services (ServiceManager ''srv'' Missing) = []
   \<and> platforms (SessionManager (Unparsable ''Expecting value: line 1 column 1 (char 0)'') Missing Missing) = []
   \<and> api_keys (SessionManager Missing (Unparsable ''Expecting value: line 1 column 1 (char 0)'') Missing) = []"
  using load_of_bad_file_is_empty [of Missing "''Expecting value: line 1 column 1 (char 0)''" "''srv''"
          "Unparsable ''Expecting value: line 1 column 1 (char 0)''" Missing Missing]
        load_of_bad_file_is_empty [of Missing "''Expecting value: line 1 column 1 (char 0)''" "''srv''"
          Missing "Unparsable ''Expecting value: line 1 column 1 (char 0)''" Missing]
  by simp

section \<open>Saving credentials and API keys\<close>

lemma dict_update_lookup:
  "distinct (map fst new) \<Longrightarrow>
   map_of (dict_update d new) k = (case map_of new k of Some v \<Rightarrow> Some v | None \<Rightarrow> map_of d k)"
proof (induction new arbitrary: d)
  case Nil
  then show ?case by (simp add: dict_update_def)
next
  case (Cons a new)
  obtain x y where a: "a = (x, y)" by (cases a)
  from Cons.prems a have nx: "map_of new x = None" and dn: "distinct (map fst new)"
    by (simp_all add: map_of_eq_None_iff)
  have "map_of (dict_update d (a # new)) k = map_of (dict_update (AList.update x y d) new) k"
    by (simp add: dict_update_def a)
  also have "\<dots> = (case map_of new k of Some v \<Rightarrow> Some v
                    | None \<Rightarrow> map_of (AList.update x y d) k)"
    by (rule Cons.IH [OF dn])
  finally show ?case
    using nx by (simp add: a update_conv' split: option.splits)
qed

lemma update_if_given_ref:
  "update_if_given (Ref t) arg st =
     Inr (Ref t, st\<lparr>heap := (heap st)(t := dict_update (heap st t) (arg_dict st arg))\<rparr>)"
proof (cases arg)
  case None
  then show ?thesis by (simp add: dict_update_def)
next
  case (Some a)
  then show ?thesis by (simp add: dict_update_def)
qed

lemma store_platform_result:
  "map_of (platforms (snd (store_platform e p session st))) p = Some session"
  "heap (snd (store_platform e p session st)) = heap st"
  by (simp_all add: store_platform_def save_platforms_def update_conv' split: write_outcome.splits)

lemma save_platform_existing:
  assumes "map_of (platforms st) p = Some old"
    and "ps_settings old = Ref ts" and "ps_metadata old = Ref tm"
  shows "map_of (platforms (snd (save_platform e p c sett meta st))) p =
           Some (old\<lparr>ps_credentials := Ref c, ps_last_used := PStr (now e p),
                      ps_is_active := PBool True\<rparr>)"
    and "heap (snd (save_platform e p c sett meta st)) =
           (let h1 = (heap st)(ts := dict_update (heap st ts) (arg_dict st sett))
            in h1(tm := dict_update (h1 tm) (arg_dict (st\<lparr>heap := h1\<rparr>) meta)))"
  using assms
  by (simp_all add: save_platform_def Let_def update_if_given_ref store_platform_result)

lemma or_empty_cases:
  "or_empty arg st = (Ref a, st1) \<Longrightarrow>
     (a = next_addr st \<and> arg_dict st arg = []
        \<and> st1 = st\<lparr>heap := (heap st)(next_addr st := []), next_addr := Suc (next_addr st)\<rparr>)
     \<or> (arg = Some a \<and> st1 = st)"
  by (cases arg) (auto simp add: alloc_def split: if_splits)

lemma or_empty_is_ref: "\<exists>a st1. or_empty arg st = (Ref a, st1)"
  by (cases arg) (auto simp add: alloc_def)

lemma save_platform_new:
  assumes "map_of (platforms st) p = None"
    and "c < next_addr st"
    and "\<forall>a \<in> set_option sett. a < next_addr st"
    and "\<forall>a \<in> set_option meta. a < next_addr st"
  shows "map_option (PlatformSession_to_dict (heap (snd (save_platform e p c sett meta st))))
           (map_of (platforms (snd (save_platform e p c sett meta st))) p) =
         Some (PDict
           [(''platform'', PStr p), (''credentials'', PDict (heap st c)),
            (''created_at'', PStr (now e p)), (''last_used'', PStr (now e p)),
            (''is_active'', PBool True), (''settings'', PDict (arg_dict st sett)),
            (''metadata'', PDict (arg_dict st meta))])"
    and "map_option ps_credentials (map_of (platforms (snd (save_platform e p c sett meta st))) p)
           = Some (Ref c)"
proof -
  obtain sa st1 where s: "or_empty sett st = (Ref sa, st1)"
    using or_empty_is_ref by blast
  obtain ma st2 where m: "or_empty meta st1 = (Ref ma, st2)"
    using or_empty_is_ref by blast
  let ?r = "\<lparr>ps_platform = PStr p, ps_credentials = Ref c,
             ps_created_at = PStr (now e p), ps_last_used = PStr (now e p),
             ps_is_active = PBool True, ps_settings = Ref sa, ps_metadata = Ref ma\<rparr>"
  have run: "save_platform e p c sett meta st = store_platform e p ?r st2"
    using assms(1) s m by (simp add: save_platform_def)
  have rec: "map_of (platforms (snd (save_platform e p c sett meta st))) p = Some ?r"
    and hp: "heap (snd (save_platform e p c sett meta st)) = heap st2"
    by (simp_all add: run store_platform_result)
  from or_empty_cases [OF s]
  have s1: "(sa = next_addr st \<and> arg_dict st sett = []
        \<and> st1 = st\<lparr>heap := (heap st)(next_addr st := []), next_addr := Suc (next_addr st)\<rparr>)
     \<or> (sett = Some sa \<and> st1 = st)" .
  from or_empty_cases [OF m]
  have m1: "(ma = next_addr st1 \<and> arg_dict st1 meta = []
        \<and> st2 = st1\<lparr>heap := (heap st1)(next_addr st1 := []), next_addr := Suc (next_addr st1)\<rparr>)
     \<or> (meta = Some ma \<and> st2 = st1)" .
  have c2: "heap st2 c = heap st c"
    using s1 m1 assms(2) by auto
  have s2: "heap st2 sa = arg_dict st sett"
    using s1 m1 assms(3) by auto
  have am: "arg_dict st1 meta = arg_dict st meta"
    using s1 assms(4) by (cases meta) auto
  have m2: "heap st2 ma = arg_dict st meta"
    using m1 am by auto
  show "map_option (PlatformSession_to_dict (heap (snd (save_platform e p c sett meta st))))
           (map_of (platforms (snd (save_platform e p c sett meta st))) p) =
         Some (PDict
           [(''platform'', PStr p), (''credentials'', PDict (heap st c)),
            (''created_at'', PStr (now e p)), (''last_used'', PStr (now e p)),
            (''is_active'', PBool True), (''settings'', PDict (arg_dict st sett)),
            (''metadata'', PDict (arg_dict st meta))])"
    by (simp add: rec hp PlatformSession_to_dict_def c2 s2 m2)
  show "map_option ps_credentials (map_of (platforms (snd (save_platform e p c sett meta st))) p)
           = Some (Ref c)"
    by (simp add: rec)
qed

text \<open>
  Claim C4, as amended. When the platform has a record whose settings and metadata are
  dictionary objects, different from each other and from the credentials object
  supplied, the settings object not being the metadata object supplied,
  \<^verbatim>\<open>save_platform\<close> leaves a record for it that differs from the old one in this: its
  credentials are the object supplied, with its content as it was, \<open>last_used\<close> is the
  current time and \<open>is_active\<close> is true; the settings and the metadata object are
  updated in place with the dictionaries supplied, so that a key is looked up in the
  supplied dictionary first and in the old content otherwise (nothing is supplied by
  \<^verbatim>\<open>None\<close>). When the platform has no record and the objects supplied exist, a record
  is created that holds the platform name, the credentials object supplied, the current
  time as \<open>created_at\<close> and \<open>last_used\<close>, \<open>is_active\<close> true, and settings and metadata
  with the content supplied (empty for \<^verbatim>\<open>None\<close>). Both hold whether or not the file can
  be written afterwards.
\<close>

theorem save_platform_merges:
  "(map_of (platforms st) p = Some old \<and> ps_settings old = Ref ts \<and> ps_metadata old = Ref tm
      \<and> ts \<noteq> tm \<and> c \<noteq> ts \<and> c \<noteq> tm \<and> meta \<noteq> Some ts
      \<and> distinct (map fst (arg_dict st sett)) \<and> distinct (map fst (arg_dict st meta))
    \<longrightarrow> map_of (platforms (snd (save_platform e p c sett meta st))) p =
          Some (old\<lparr>ps_credentials := Ref c, ps_last_used := PStr (now e p),
                     ps_is_active := PBool True\<rparr>)
        \<and> heap (snd (save_platform e p c sett meta st)) c = heap st c
        \<and> (\<forall>k. map_of (heap (snd (save_platform e p c sett meta st)) ts) k =
                 (case map_of (arg_dict st sett) k of
                    Some v \<Rightarrow> Some v | None \<Rightarrow> map_of (heap st ts) k))
        \<and> (\<forall>k. map_of (heap (snd (save_platform e p c sett meta st)) tm) k =
                 (case map_of (arg_dict st meta) k of
                    Some v \<Rightarrow> Some v | None \<Rightarrow> map_of (heap st tm) k)))
   \<and> (map_of (platforms st) p = None \<and> c < next_addr st
      \<and> (\<forall>a \<in> set_option sett. a < next_addr st) \<and> (\<forall>a \<in> set_option meta. a < next_addr st)
    \<longrightarrow> map_option ps_credentials (map_of (platforms (snd (save_platform e p c sett meta st))) p)
          = Some (Ref c)
        \<and> map_option (PlatformSession_to_dict (heap (snd (save_platform e p c sett meta st))))
            (map_of (platforms (snd (save_platform e p c sett meta st))) p) =
          Some (PDict
            [(''platform'', PStr p), (''credentials'', PDict (heap st c)),
             (''created_at'', PStr (now e p)), (''last_used'', PStr (now e p)),
             (''is_active'', PBool True), (''settings'', PDict (arg_dict st sett)),
             (''metadata'', PDict (arg_dict st meta))]))"
proof (intro conjI impI allI)
  assume a: "map_of (platforms st) p = Some old \<and> ps_settings old = Ref ts
      \<and> ps_metadata old = Ref tm
      \<and> ts \<noteq> tm \<and> c \<noteq> ts \<and> c \<noteq> tm \<and> meta \<noteq> Some ts
      \<and> distinct (map fst (arg_dict st sett)) \<and> distinct (map fst (arg_dict st meta))"
  then have rec: "map_of (platforms (snd (save_platform e p c sett meta st))) p =
          Some (old\<lparr>ps_credentials := Ref c, ps_last_used := PStr (now e p),
                     ps_is_active := PBool True\<rparr>)"
    and hp: "heap (snd (save_platform e p c sett meta st)) =
           (let h1 = (heap st)(ts := dict_update (heap st ts) (arg_dict st sett))
            in h1(tm := dict_update (h1 tm) (arg_dict (st\<lparr>heap := h1\<rparr>) meta)))"
    using save_platform_existing [of st p old ts tm e c sett meta] by simp_all
  from a have am: "arg_dict (st\<lparr>heap := (heap st)(ts := d)\<rparr>) meta = arg_dict st meta" for d
    by (cases meta) auto
  from a have hts: "heap (snd (save_platform e p c sett meta st)) ts
                      = dict_update (heap st ts) (arg_dict st sett)"
    and htm: "heap (snd (save_platform e p c sett meta st)) tm
                      = dict_update (heap st tm) (arg_dict st meta)"
    and hc: "heap (snd (save_platform e p c sett meta st)) c = heap st c"
    by (simp_all add: hp Let_def am)
  show "map_of (platforms (snd (save_platform e p c sett meta st))) p =
          Some (old\<lparr>ps_credentials := Ref c, ps_last_used := PStr (now e p),
                     ps_is_active := PBool True\<rparr>)"
    by (rule rec)
  show "heap (snd (save_platform e p c sett meta st)) c = heap st c"
    by (rule hc)
  fix k
  from a show "map_of (heap (snd (save_platform e p c sett meta st)) ts) k =
                 (case map_of (arg_dict st sett) k of
                    Some v \<Rightarrow> Some v | None \<Rightarrow> map_of (heap st ts) k)"
    by (simp add: hts dict_update_lookup)
  from a show "map_of (heap (snd (save_platform e p c sett meta st)) tm) k =
                 (case map_of (arg_dict st meta) k of
                    Some v \<Rightarrow> Some v | None \<Rightarrow> map_of (heap st tm) k)"
    by (simp add: htm dict_update_lookup)
next
  assume a: "map_of (platforms st) p = None \<and> c < next_addr st
      \<and> (\<forall>a \<in> set_option sett. a < next_addr st) \<and> (\<forall>a \<in> set_option meta. a < next_addr st)"
  then show "map_option ps_credentials (map_of (platforms (snd (save_platform e p c sett meta st))) p)
          = Some (Ref c)"
    using save_platform_new(2) [of st p c sett meta e] by simp
  from a show "map_option (PlatformSession_to_dict (heap (snd (save_platform e p c sett meta st))))
            (map_of (platforms (snd (save_platform e p c sett meta st))) p) =
          Some (PDict
            [(''platform'', PStr p), (''credentials'', PDict (heap st c)),
             (''created_at'', PStr (now e p)), (''last_used'', PStr (now e p)),
             (''is_active'', PBool True), (''settings'', PDict (arg_dict st sett)),
             (''metadata'', PDict (arg_dict st meta))])"
    using save_platform_new(1) [of st p c sett meta e] by simp
qed

lemma after_setup_eq:
  "after_setup = before_setup
     \<lparr>platforms := [(''telegram'', telegram_a)],
      sessions_file := Content (PDict
        [(''platforms'', PDict [(''telegram'', PDict
            [(''platform'', PStr ''telegram''), (''credentials'', PDict [(''token'', PStr ''A'')]),
             (''created_at'', PStr ''2024-05-01T10:00:00''),
             (''last_used'', PStr ''2024-05-01T10:00:00''), (''is_active'', PBool True),
             (''settings'', PDict []), (''metadata'', PDict [(''x'', PInt 1)])])]),
         (''last_saved'', PStr ''2024-05-01T10:00:01'')]),
      heap := (heap before_setup)(4 := []), next_addr := 5\<rparr>"
  by (simp add: after_setup_def before_setup_def no_sessions_def save_platform_def alloc_def
        store_platform_def save_platforms_def quiet_env_def telegram_a_def
        PlatformSession_to_dict_def)

text \<open>The scenario of the specification: save \<open>telegram\<close> with token \<open>A\<close> and metadata
  \<open>{x: 1}\<close>, then with token \<open>B\<close> and metadata \<open>{y: 2}\<close>.\<close>

theorem save_platform_merges_witness:
  "map_of (platforms before_setup) ''telegram'' = None
   \<and> map_option (PlatformSession_to_dict (heap after_setup))
        (map_of (platforms after_setup) ''telegram'') =
      Some (PDict
        [(''platform'', PStr ''telegram''), (''credentials'', PDict [(''token'', PStr ''A'')]),
         (''created_at'', PStr ''2024-05-01T10:00:00''),
         (''last_used'', PStr ''2024-05-01T10:00:00''), (''is_active'', PBool True),
         (''settings'', PDict []), (''metadata'', PDict [(''x'', PInt 1)])])
   \<and> map_of (platforms after_setup) ''telegram'' = Some telegram_a
   \<and> map_of (platforms (snd (save_platform later_env ''telegram'' 2 None (Some 3) after_setup)))
        ''telegram''
       = Some (telegram_a\<lparr>ps_credentials := Ref 2, ps_last_used := PStr ''2024-05-02T09:00:00''\<rparr>)
   \<and> heap (snd (save_platform later_env ''telegram'' 2 None (Some 3) after_setup)) 2
       = [(''token'', PStr ''B'')]
   \<and> map_of (heap (snd (save_platform later_env ''telegram'' 2 None (Some 3) after_setup)) 1) ''x''
       = Some (PInt 1)
   \<and> map_of (heap (snd (save_platform later_env ''telegram'' 2 None (Some 3) after_setup)) 1) ''y''
       = Some (PInt 2)"
proof -
  have new: "map_option (PlatformSession_to_dict (heap after_setup))
        (map_of (platforms after_setup) ''telegram'') =
      Some (PDict
        [(''platform'', PStr ''telegram''), (''credentials'', PDict [(''token'', PStr ''A'')]),
         (''created_at'', PStr ''2024-05-01T10:00:00''),
         (''last_used'', PStr ''2024-05-01T10:00:00''), (''is_active'', PBool True),
         (''settings'', PDict []), (''metadata'', PDict [(''x'', PInt 1)])])"
    using save_platform_merges [of before_setup "''telegram''" _ _ _ 0 "Some 1" None quiet_env]
    unfolding after_setup_def
    by (simp add: before_setup_def no_sessions_def quiet_env_def)
  have old: "map_of (platforms after_setup) ''telegram'' = Some telegram_a"
    by (simp add: after_setup_eq)
  have upd: "map_of (platforms (snd (save_platform later_env ''telegram'' 2 None (Some 3) after_setup)))
        ''telegram''
       = Some (telegram_a\<lparr>ps_credentials := Ref 2, ps_last_used := PStr ''2024-05-02T09:00:00''\<rparr>)
   \<and> heap (snd (save_platform later_env ''telegram'' 2 None (Some 3) after_setup)) 2
       = [(''token'', PStr ''B'')]
   \<and> map_of (heap (snd (save_platform later_env ''telegram'' 2 None (Some 3) after_setup)) 1) ''x''
       = Some (PInt 1)
   \<and> map_of (heap (snd (save_platform later_env ''telegram'' 2 None (Some 3) after_setup)) 1) ''y''
       = Some (PInt 2)"
    using save_platform_merges [of after_setup "''telegram''" telegram_a 4 1 2 "Some 3" None later_env]
    by (simp add: old)
       (simp add: after_setup_eq before_setup_def no_sessions_def telegram_a_def later_env_def
          quiet_env_def)
  show ?thesis
    using new old upd by (simp add: before_setup_def no_sessions_def)
qed

text \<open>The claim as stated fails: for the record that the load builds from a file with
  a list as metadata, the call raises, merges nothing and writes nothing.\<close>

theorem save_platform_not_a_dict_counterexample:
  "map_option ps_metadata (map_of (platforms odd_session) ''telegram'')
      = Some (Val (PList [PInt 1, PInt 2]))
   \<and> heap odd_session 2 = [(''token'', PStr ''B'')] \<and> heap odd_session 3 = [(''y'', PInt 2)]
   \<and> fst (save_platform quiet_env ''telegram'' 2 None (Some 3) odd_session)
      = Raises (CHR 0x27 # ''list' object has no attribute 'update'' @ [CHR 0x27])
   \<and> map_option ps_metadata
        (map_of (platforms (snd (save_platform quiet_env ''telegram'' 2 None (Some 3) odd_session)))
           ''telegram'')
      = Some (Val (PList [PInt 1, PInt 2]))
   \<and> sessions_file (snd (save_platform quiet_env ''telegram'' 2 None (Some 3) odd_session)) = odd_file"
  by (simp add: odd_session_def odd_file_def SessionManager_def load_all_def load_settings_def
        load_api_keys_def load_platforms_def py_get_def alloc_def save_platform_def)

text \<open>
  Claim C10. For a provider that already has an API key record, \<^verbatim>\<open>save_api_key\<close>
  leaves a record for it that is built from the provider name, the new key and the
  current time alone: tokens used 0, tokens remaining -1, active, added and last used
  now. Nothing of the old record enters it.
\<close>

theorem save_api_key_replaces:
  assumes "map_of (api_keys st) provider = Some old"
  shows "map_of (api_keys (snd (save_api_key e provider k st))) provider =
           Some \<lparr>ak_provider = PStr provider, ak_key = PStr k,
                 ak_added_at = PStr (now e provider), ak_tokens_used = PInt 0,
                 ak_tokens_remaining = PInt (- 1), ak_is_active = PBool True,
                 ak_last_used = PStr (now e provider)\<rparr>"
  by (simp add: save_api_key_def save_api_keys_def Let_def update_conv'
        split: write_outcome.splits)

theorem save_api_key_replaces_witness:
  "map_of (api_keys with_old_key) ''openai'' = Some old_key
   \<and> ak_tokens_used old_key = PInt 500 \<and> ak_is_active old_key = PBool False
   \<and> map_of (api_keys (snd (save_api_key later_env ''openai'' ''sk-new'' with_old_key))) ''openai'' =
           Some \<lparr>ak_provider = PStr ''openai'', ak_key = PStr ''sk-new'',
                 ak_added_at = PStr ''2024-05-02T09:00:00'', ak_tokens_used = PInt 0,
                 ak_tokens_remaining = PInt (- 1), ak_is_active = PBool True,
                 ak_last_used = PStr ''2024-05-02T09:00:00''\<rparr>"
  using save_api_key_replaces [of with_old_key "''openai''" old_key later_env "''sk-new''"]
  by (simp add: with_old_key_def no_sessions_def old_key_def later_env_def quiet_env_def)

section \<open>Batch operations\<close>


lemma map_of_Some_key: "map_of al k = Some v \<Longrightarrow> k \<in> set (map fst al)"
  by (metis map_of_eq_None_iff option.distinct(1) set_map)

lemma update_keys_present: "map_of al k = Some v \<Longrightarrow> map fst (AList.update k w al) = map fst al"
  by (simp add: update_keys map_of_Some_key [simplified])

lemma start_service_returns: "\<exists>r. fst (start_service e n st) = Returns r"
  by (simp add: start_service_def save_services_def Let_def
        split: option.splits launch.splits write_outcome.splits)

lemma start_service_other:
  assumes "m \<noteq> n"
  shows "map_of (services (snd (start_service e n st))) m = map_of (services st) m"
    and "map_of (processes (snd (start_service e n st))) m = map_of (processes st) m"
  using assms
  by (simp_all add: start_service_def save_services_def Let_def update_conv'
        split: option.splits launch.splits write_outcome.splits)

lemma start_service_logs_dir: "logs_dir (snd (start_service e n st)) = logs_dir st"
  by (simp add: start_service_def save_services_def Let_def
        split: option.splits launch.splits write_outcome.splits)

lemma start_service_local:
  assumes "map_of (services st) n = map_of (services st') n"
    and "map_of (processes st) n = map_of (processes st') n"
    and "logs_dir st = logs_dir st'"
  shows "fst (start_service e n st) = fst (start_service e n st')"
    and "map_of (services (snd (start_service e n st))) n
         = map_of (services (snd (start_service e n st'))) n"
    and "map_of (processes (snd (start_service e n st))) n
         = map_of (processes (snd (start_service e n st'))) n"
  using assms
  by (simp_all add: start_service_def save_services_def Let_def update_conv' log_path_def
        split: option.splits launch.splits write_outcome.splits)


lemma stop_service_returns:
  "map_of (processes st) n \<noteq> None \<Longrightarrow> \<exists>r. fst (stop_service e n st) = Returns r"
  by (auto simp add: stop_service_def save_services_def
        split: option.splits write_outcome.splits)

lemma stop_service_other:
  assumes "m \<noteq> n"
  shows "map_of (services (snd (stop_service e n st))) m = map_of (services st) m"
    and "map_of (processes (snd (stop_service e n st))) m = map_of (processes st) m"
  using assms
  by (simp_all add: stop_service_def save_services_def update_conv' delete_conv'
        split: option.splits write_outcome.splits)

lemma stop_service_local:
  assumes "map_of (services st) n = map_of (services st') n"
    and "map_of (processes st) n = map_of (processes st') n"
  shows "fst (stop_service e n st) = fst (stop_service e n st')"
    and "map_of (services (snd (stop_service e n st))) n
         = map_of (services (snd (stop_service e n st'))) n"
    and "map_of (processes (snd (stop_service e n st))) n
         = map_of (processes (snd (stop_service e n st'))) n"
  using assms
  by (simp_all add: stop_service_def save_services_def update_conv' delete_conv'
        split: option.splits write_outcome.splits)

lemma update_keys_absent: "k \<notin> set (map fst al) \<Longrightarrow> map fst (AList.update k w al) = map fst al @ [k]"
  by (simp add: update_keys)

lemma start_each_spec:
  assumes "distinct ns" and "set ns \<inter> set (map fst res) = {}"
  shows "\<exists>res' st'. start_each e ns res st = (Returns res', st')
      \<and> map fst res' = map fst res @ ns
      \<and> (\<forall>n. map_option Returns (map_of res' n) =
               (if n \<in> set ns then Some (fst (start_service e n st))
                else map_option Returns (map_of res n)))
      \<and> (\<forall>n. map_of (services st') n =
               (if n \<in> set ns then map_of (services (snd (start_service e n st))) n
                else map_of (services st) n))
      \<and> (\<forall>n. map_of (processes st') n =
               (if n \<in> set ns then map_of (processes (snd (start_service e n st))) n
                else map_of (processes st) n))
      \<and> logs_dir st' = logs_dir st"
  using assms
proof (induction ns arbitrary: res st)
  case Nil
  then show ?case by simp
next
  case (Cons n ns)
  obtain r where r: "fst (start_service e n st) = Returns r"
    using start_service_returns by blast
  define st1 where "st1 = snd (start_service e n st)"
  have step: "start_service e n st = (Returns r, st1)"
    using r by (simp add: st1_def prod_eq_iff)
  have d: "distinct ns" and nn: "n \<notin> set ns" and nr: "n \<notin> set (map fst res)"
    and disj: "set ns \<inter> set (map fst (AList.update n r res)) = {}"
    using Cons.prems by (auto simp add: update_keys_absent)
  from Cons.IH [OF d disj, of st1]
  obtain res' st' where
    run: "start_each e ns (AList.update n r res) st1 = (Returns res', st')"
    and keys: "map fst res' = map fst (AList.update n r res) @ ns"
    and results: "\<And>m. map_option Returns (map_of res' m) =
               (if m \<in> set ns then Some (fst (start_service e m st1))
                else map_option Returns (map_of (AList.update n r res) m))"
    and svcs: "\<And>m. map_of (services st') m =
               (if m \<in> set ns then map_of (services (snd (start_service e m st1))) m
                else map_of (services st1) m)"
    and procs: "\<And>m. map_of (processes st') m =
               (if m \<in> set ns then map_of (processes (snd (start_service e m st1))) m
                else map_of (processes st1) m)"
    and dir: "logs_dir st' = logs_dir st1"
    by blast
  have agree: "map_of (services st1) m = map_of (services st) m"
       "map_of (processes st1) m = map_of (processes st) m" if "m \<noteq> n" for m
    using that by (simp_all add: st1_def start_service_other)
  have dir1: "logs_dir st1 = logs_dir st"
    by (simp add: st1_def start_service_logs_dir)
  have same: "fst (start_service e m st1) = fst (start_service e m st)"
       "map_of (services (snd (start_service e m st1))) m
          = map_of (services (snd (start_service e m st))) m"
       "map_of (processes (snd (start_service e m st1))) m
          = map_of (processes (snd (start_service e m st))) m" if "m \<in> set ns" for m
  proof -
    from that nn have "m \<noteq> n" by auto
    then show "fst (start_service e m st1) = fst (start_service e m st)"
       "map_of (services (snd (start_service e m st1))) m
          = map_of (services (snd (start_service e m st))) m"
       "map_of (processes (snd (start_service e m st1))) m
          = map_of (processes (snd (start_service e m st))) m"
      using start_service_local [of st1 m st e] agree [of m] dir1 by simp_all
  qed
  have "start_each e (n # ns) res st = (Returns res', st')"
    using step run by simp
  moreover have "map fst res' = map fst res @ n # ns"
    using keys nr by (simp add: update_keys_absent)
  moreover have "map_option Returns (map_of res' m) =
               (if m \<in> set (n # ns) then Some (fst (start_service e m st))
                else map_option Returns (map_of res m))" for m
    using results [of m] same(1) [of m] nn r by (auto simp add: update_conv')
  moreover have "map_of (services st') m =
               (if m \<in> set (n # ns) then map_of (services (snd (start_service e m st))) m
                else map_of (services st) m)" for m
    using svcs [of m] same(2) [of m] nn agree(1) [of m] by (auto simp add: st1_def)
  moreover have "map_of (processes st') m =
               (if m \<in> set (n # ns) then map_of (processes (snd (start_service e m st))) m
                else map_of (processes st) m)" for m
    using procs [of m] same(3) [of m] nn agree(2) [of m] by (auto simp add: st1_def)
  moreover have "logs_dir st' = logs_dir st"
    using dir dir1 by simp
  ultimately show ?case by blast
qed

lemma stop_each_spec:
  assumes "distinct ns" and "set ns \<inter> set (map fst res) = {}"
    and "\<forall>n \<in> set ns. map_of (processes st) n \<noteq> None"
  shows "\<exists>res' st'. stop_each e ns res st = (Returns res', st')
      \<and> map fst res' = map fst res @ ns
      \<and> (\<forall>n. map_option Returns (map_of res' n) =
               (if n \<in> set ns then Some (fst (stop_service e n st))
                else map_option Returns (map_of res n)))
      \<and> (\<forall>n. map_of (services st') n =
               (if n \<in> set ns then map_of (services (snd (stop_service e n st))) n
                else map_of (services st) n))
      \<and> (\<forall>n. map_of (processes st') n =
               (if n \<in> set ns then map_of (processes (snd (stop_service e n st))) n
                else map_of (processes st) n))"
  using assms
proof (induction ns arbitrary: res st)
  case Nil
  then show ?case by simp
next
  case (Cons n ns)
  obtain r where r: "fst (stop_service e n st) = Returns r"
    using stop_service_returns [of st n e] Cons.prems(3) by auto
  define st1 where "st1 = snd (stop_service e n st)"
  have step: "stop_service e n st = (Returns r, st1)"
    using r by (simp add: st1_def prod_eq_iff)
  have d: "distinct ns" and nn: "n \<notin> set ns" and nr: "n \<notin> set (map fst res)"
    and disj: "set ns \<inter> set (map fst (AList.update n r res)) = {}"
    using Cons.prems by (auto simp add: update_keys_absent)
  have agree: "map_of (services st1) m = map_of (services st) m"
       "map_of (processes st1) m = map_of (processes st) m" if "m \<noteq> n" for m
    using that by (simp_all add: st1_def stop_service_other)
  have tracked: "\<forall>m \<in> set ns. map_of (processes st1) m \<noteq> None"
  proof
    fix m assume m: "m \<in> set ns"
    with nn have "m \<noteq> n" by auto
    then have "map_of (processes st1) m = map_of (processes st) m" by (rule agree(2))
    with Cons.prems(3) m show "map_of (processes st1) m \<noteq> None" by simp
  qed
  from Cons.IH [OF d disj tracked]
  obtain res' st' where
    run: "stop_each e ns (AList.update n r res) st1 = (Returns res', st')"
    and keys: "map fst res' = map fst (AList.update n r res) @ ns"
    and results: "\<And>m. map_option Returns (map_of res' m) =
               (if m \<in> set ns then Some (fst (stop_service e m st1))
                else map_option Returns (map_of (AList.update n r res) m))"
    and svcs: "\<And>m. map_of (services st') m =
               (if m \<in> set ns then map_of (services (snd (stop_service e m st1))) m
                else map_of (services st1) m)"
    and procs: "\<And>m. map_of (processes st') m =
               (if m \<in> set ns then map_of (processes (snd (stop_service e m st1))) m
                else map_of (processes st1) m)"
    by blast
  have same: "fst (stop_service e m st1) = fst (stop_service e m st)"
       "map_of (services (snd (stop_service e m st1))) m
          = map_of (services (snd (stop_service e m st))) m"
       "map_of (processes (snd (stop_service e m st1))) m
          = map_of (processes (snd (stop_service e m st))) m" if "m \<in> set ns" for m
  proof -
    from that nn have "m \<noteq> n" by auto
    then show "fst (stop_service e m st1) = fst (stop_service e m st)"
       "map_of (services (snd (stop_service e m st1))) m
          = map_of (services (snd (stop_service e m st))) m"
       "map_of (processes (snd (stop_service e m st1))) m
          = map_of (processes (snd (stop_service e m st))) m"
      using stop_service_local [of st1 m st e] agree [of m] by simp_all
  qed
  have "stop_each e (n # ns) res st = (Returns res', st')"
    using step run by simp
  moreover have "map fst res' = map fst res @ n # ns"
    using keys nr by (simp add: update_keys_absent)
  moreover have "map_option Returns (map_of res' m) =
               (if m \<in> set (n # ns) then Some (fst (stop_service e m st))
                else map_option Returns (map_of res m))" for m
    using results [of m] same(1) [of m] nn r by (auto simp add: update_conv')
  moreover have "map_of (services st') m =
               (if m \<in> set (n # ns) then map_of (services (snd (stop_service e m st))) m
                else map_of (services st) m)" for m
    using svcs [of m] same(2) [of m] nn agree(1) [of m] by (auto simp add: st1_def)
  moreover have "map_of (processes st') m =
               (if m \<in> set (n # ns) then map_of (processes (snd (stop_service e m st))) m
                else map_of (processes st) m)" for m
    using procs [of m] same(3) [of m] nn agree(2) [of m] by (auto simp add: st1_def)
  ultimately show ?case by blast
qed

text \<open>
  Claim C8, as amended. \<^verbatim>\<open>start_all\<close> applies \<^verbatim>\<open>start_service\<close> to every registered
  service, and \<^verbatim>\<open>stop_all\<close> applies \<^verbatim>\<open>stop_service\<close> to every service with a tracked
  process handle (a registered service without a handle is not visited). Each returns,
  without raising, a dictionary whose keys are the visited names in order; the entry of
  a name is the result that the single call for that name gives on the initial state,
  and the record and the handle of the name end as that single call leaves them. So a
  failure for one name neither ends the loop nor changes what happens for another.
\<close>

theorem batch_isolation:
  "(distinct (map fst (services st)) \<longrightarrow>
      (\<exists>results st'. start_all e st = (Returns results, st')
         \<and> map fst results = map fst (services st)
         \<and> (\<forall>n \<in> set (map fst (services st)).
               map_option Returns (map_of results n) = Some (fst (start_service e n st))
               \<and> map_of (services st') n = map_of (services (snd (start_service e n st))) n
               \<and> map_of (processes st') n = map_of (processes (snd (start_service e n st))) n)))
   \<and> (distinct (map fst (processes st)) \<longrightarrow>
      (\<exists>results st'. stop_all e st = (Returns results, st')
         \<and> map fst results = map fst (processes st)
         \<and> (\<forall>n \<in> set (map fst (processes st)).
               map_option Returns (map_of results n) = Some (fst (stop_service e n st))
               \<and> map_of (services st') n = map_of (services (snd (stop_service e n st))) n
               \<and> map_of (processes st') n = map_of (processes (snd (stop_service e n st))) n)))"
proof (intro conjI impI)
  assume "distinct (map fst (services st))"
  then show "\<exists>results st'. start_all e st = (Returns results, st')
         \<and> map fst results = map fst (services st)
         \<and> (\<forall>n \<in> set (map fst (services st)).
               map_option Returns (map_of results n) = Some (fst (start_service e n st))
               \<and> map_of (services st') n = map_of (services (snd (start_service e n st))) n
               \<and> map_of (processes st') n = map_of (processes (snd (start_service e n st))) n)"
    using start_each_spec [of "map fst (services st)" "[]" e st]
    unfolding start_all_def by (simp only: list.map set_simps Int_empty_right append_Nil) metis
next
  assume d: "distinct (map fst (processes st))"
  have "\<forall>n \<in> set (map fst (processes st)). map_of (processes st) n \<noteq> None"
    by (simp add: map_of_eq_None_iff)
  with d show "\<exists>results st'. stop_all e st = (Returns results, st')
         \<and> map fst results = map fst (processes st)
         \<and> (\<forall>n \<in> set (map fst (processes st)).
               map_option Returns (map_of results n) = Some (fst (stop_service e n st))
               \<and> map_of (services st') n = map_of (services (snd (stop_service e n st))) n
               \<and> map_of (processes st') n = map_of (processes (snd (stop_service e n st))) n)"
    using stop_each_spec [of "map fst (processes st)" "[]" st e]
    unfolding stop_all_def by (simp only: list.map set_simps Int_empty_right append_Nil) metis
qed

theorem batch_isolation_witness:
  "distinct (map fst (services trio))
   \<and> fst (start_all b_fails_env trio) = Returns
        [(''a'', Success (Some 101) (''Service 'a' started with PID '' @ str_int 101)),
         (''b'', Failure ''[Errno 2] No such file or directory''),
         (''c'', Success (Some 103) (''Service 'c' started with PID '' @ str_int 103))]
   \<and> processes (snd (start_all b_fails_env trio)) = [(''a'', Popen 101), (''c'', Popen 103)]
   \<and> fst (stop_all quiet_env (snd (start_all b_fails_env trio))) = Returns
        [(''a'', Success None ''Service 'a' stopped''),
         (''c'', Success None ''Service 'c' stopped'')]"
proof -
  have run: "start_all b_fails_env trio =
    (Returns
        [(''a'', Success (Some 101) (''Service 'a' started with PID '' @ str_int 101)),
         (''b'', Failure ''[Errno 2] No such file or directory''),
         (''c'', Success (Some 103) (''Service 'c' started with PID '' @ str_int 103))],
     \<lparr>logs_dir = ''logs'',
      services = [(''a'', bot\<lparr>svc_name := PStr ''a'', svc_pid := PInt 101, svc_status := ''running'',
                               svc_started_at := PStr ''2024-05-01T10:00:00''\<rparr>),
                  (''b'', bot\<lparr>svc_name := PStr ''b'', svc_status := ''crashed''\<rparr>),
                  (''c'', bot\<lparr>svc_name := PStr ''c'', svc_pid := PInt 103, svc_status := ''running'',
                               svc_started_at := PStr ''2024-05-01T10:00:00''\<rparr>)],
      processes = [(''a'', Popen 101), (''c'', Popen 103)],
      services_file = Content (services_json ''2024-05-01T10:00:01''
                 [(''a'', bot\<lparr>svc_name := PStr ''a'', svc_pid := PInt 101, svc_status := ''running'',
                               svc_started_at := PStr ''2024-05-01T10:00:00''\<rparr>),
                  (''b'', bot\<lparr>svc_name := PStr ''b'', svc_status := ''crashed''\<rparr>),
                  (''c'', bot\<lparr>svc_name := PStr ''c'', svc_pid := PInt 103, svc_status := ''running'',
                               svc_started_at := PStr ''2024-05-01T10:00:00''\<rparr>)])\<rparr>)"
    by (simp add: start_all_def trio_def start_service_def save_services_def b_fails_env_def
          quiet_env_def log_path_def bot_def Let_def)
  have stop_run: "fst (stop_all quiet_env
     \<lparr>logs_dir = ''logs'',
      services = [(''a'', bot\<lparr>svc_name := PStr ''a'', svc_pid := PInt 101, svc_status := ''running'',
                               svc_started_at := PStr ''2024-05-01T10:00:00''\<rparr>),
                  (''b'', bot\<lparr>svc_name := PStr ''b'', svc_status := ''crashed''\<rparr>),
                  (''c'', bot\<lparr>svc_name := PStr ''c'', svc_pid := PInt 103, svc_status := ''running'',
                               svc_started_at := PStr ''2024-05-01T10:00:00''\<rparr>)],
      processes = [(''a'', Popen 101), (''c'', Popen 103)],
      services_file = Content (services_json ''2024-05-01T10:00:01''
                 [(''a'', bot\<lparr>svc_name := PStr ''a'', svc_pid := PInt 101, svc_status := ''running'',
                               svc_started_at := PStr ''2024-05-01T10:00:00''\<rparr>),
                  (''b'', bot\<lparr>svc_name := PStr ''b'', svc_status := ''crashed''\<rparr>),
                  (''c'', bot\<lparr>svc_name := PStr ''c'', svc_pid := PInt 103, svc_status := ''running'',
                               svc_started_at := PStr ''2024-05-01T10:00:00''\<rparr>)])\<rparr>)
    = Returns [(''a'', Success None ''Service 'a' stopped''),
               (''c'', Success None ''Service 'c' stopped'')]"
    by (simp add: stop_all_def stop_service_def terminate_def save_services_def quiet_env_def)
  have d: "distinct (map fst (services trio))"
    by (simp add: trio_def)
  with batch_isolation [of trio b_fails_env]
  have "\<exists>results st'. start_all b_fails_env trio = (Returns results, st')
          \<and> map fst results = map fst (services trio)"
    by blast
  then show ?thesis
    using d run stop_run by simp
qed

text \<open>The claim as stated fails for \<^verbatim>\<open>stop_all\<close>: a registered service without a
  handle gets no call and no entry.\<close>

theorem stop_all_skips_counterexample:
  "map_of (services registered) ''bot'' = Some bot
   \<and> stop_all quiet_env registered = (Returns [], registered)
   \<and> map_of ([] :: (string \<times> result) list) ''bot'' = None"
  by (simp add: registered_def stop_all_def)

end
